theory Spec2Isabelle
  imports Complex_Main
begin

section \<open>The DevPulse insight engine (\<^verbatim>\<open>src/js/ai-insights.js\<close>)\<close>

text \<open>
  The engine is one object literal, \<^verbatim>\<open>window.DevPulseAI\<close>, whose methods are pure apart
  from three effects: \<^verbatim>\<open>Math.random()\<close> in the placeholder branches, \<^verbatim>\<open>Date.now()\<close> in
  \<^verbatim>\<open>calculateInnovationScore\<close>, and the local time zone behind \<^verbatim>\<open>getHours\<close>,
  \<^verbatim>\<open>getDay\<close> and \<^verbatim>\<open>toDateString\<close>. Each becomes a parameter: a draw \<open>r\<close> for every
  call of \<^verbatim>\<open>Math.random()\<close>, the clock \<open>now\<close>, and the zone offset \<open>tz\<close>.

  Conventions of the embedding.
  \<^item> JavaScript numbers are modelled as exact reals (counts as naturals). Where the code
    divides by a quantity that can be zero the quotient is a \<open>jsnum\<close>, which has
    \<^verbatim>\<open>Infinity\<close> and \<^verbatim>\<open>NaN\<close>; every other divisor of the source is at least 1.
    The code rounds to doubles, so a placeholder such as \<^verbatim>\<open>Math.random() * 3 + 4\<close> can
    reach the upper end of its range; what is stated of placeholder values are closed
    ranges, which the rounded values satisfy as well.
  \<^item> Strings are lists of characters. Labels that carry an emoji are constructors of a
    datatype, one per label; the tables below give the label each constructor stands for.
  \<^item> An optional field is an \<open>option\<close>: \<open>None\<close> is \<^verbatim>\<open>undefined\<close> or \<^verbatim>\<open>null\<close>.
  \<^item> A timestamp is an integer, the milliseconds since the epoch that \<^verbatim>\<open>new Date(s)\<close>
    yields for a valid date string; events always carry one, repositories may not. The
    zone offset is the same for all timestamps of a run.
  \<^item> Nothing in the source has a \<^verbatim>\<open>throw\<close>. The one place where a well-typed input
    makes JavaScript raise is the lookup \<^verbatim>\<open>progressionMap[lang]\<close> in
    \<^verbatim>\<open>predictNextTechnology\<close>; functions that can raise return \<open>error + 'a\<close>.
\<close>

subsection \<open>JavaScript helpers\<close>

datatype error = TypeError

datatype jsnum = Finite real | Infinity | NaN

text \<open>\<^verbatim>\<open>xs.slice(a, b)\<close> and \<^verbatim>\<open>xs.slice(a)\<close> (the latter is \<open>drop a\<close>).\<close>

definition slice :: "nat \<Rightarrow> nat \<Rightarrow> 'a list \<Rightarrow> 'a list" where
  "slice a b xs = take (b - a) (drop a xs)"

text \<open>\<^verbatim>\<open>xs.reduce((a, b) => a + b, 0)\<close>.\<close>

definition reduce_add :: "'a::monoid_add list \<Rightarrow> 'a" where
  "reduce_add xs = foldl (\<lambda>a b. a + b) 0 xs"

text \<open>\<^verbatim>\<open>Math.max(...xs)\<close> on an array of counts. (On the empty array JavaScript yields
  \<^verbatim>\<open>-Infinity\<close>; both callers then map and filter the same empty array, so the value is
  never looked at.)\<close>

definition Math_max :: "nat list \<Rightarrow> nat" where
  "Math_max xs = foldl max 0 xs"

text \<open>\<^verbatim>\<open>xs[i] || 0\<close>: an index out of range reads \<^verbatim>\<open>undefined\<close>.\<close>

definition nth_or0 :: "nat list \<Rightarrow> nat \<Rightarrow> nat" where
  "nth_or0 xs i = (if i < length xs then xs ! i else 0)"

text \<open>\<^verbatim>\<open>[...new Set(xs)]\<close> keeps the first occurrence of every element, in order;
  \<^verbatim>\<open>new Set(xs).size\<close> counts the distinct elements.\<close>

definition uniq :: "'a list \<Rightarrow> 'a list" where
  "uniq xs = rev (remdups (rev xs))"

definition set_size :: "'a list \<Rightarrow> nat" where
  "set_size xs = length (remdups xs)"

text \<open>\<^verbatim>\<open>s.includes(k)\<close> on strings: \<open>k\<close> occurs in \<open>s\<close> as a contiguous piece.\<close>

fun str_includes :: "string \<Rightarrow> string \<Rightarrow> bool" where
  "str_includes [] k = (k = [])"
| "str_includes (c # s) k = (take (length k) (c # s) = k \<or> str_includes s k)"

text \<open>\<^verbatim>\<open>s.toLowerCase()\<close>, on the ASCII letters.\<close>

definition lower_char :: "char \<Rightarrow> char" where
  "lower_char c =
     (let n = (of_char c :: nat) in if 65 \<le> n \<and> n \<le> 90 then char_of (n + 32) else c)"

definition toLowerCase :: "string \<Rightarrow> string" where
  "toLowerCase s = map lower_char s"

text \<open>\<^verbatim>\<open>s || ''\<close> for an optional string.\<close>

definition or_empty :: "string option \<Rightarrow> string" where
  "or_empty s = (case s of None \<Rightarrow> [] | Some t \<Rightarrow> t)"

text \<open>\<^verbatim>\<open>n || 0\<close> for an optional number.\<close>

definition or_zero :: "int option \<Rightarrow> int" where
  "or_zero n = (case n of None \<Rightarrow> 0 | Some k \<Rightarrow> k)"

text \<open>The names every object literal inherits from \<^verbatim>\<open>Object.prototype\<close>: \<^verbatim>\<open>obj[k]\<close> is
  truthy for each of them although \<open>k\<close> is no key of the literal.\<close>

definition inherited_names :: "string list" where
  "inherited_names =
     [''constructor'', ''__defineGetter__'', ''__defineSetter__'', ''hasOwnProperty'',
      ''__lookupGetter__'', ''__lookupSetter__'', ''isPrototypeOf'', ''propertyIsEnumerable'',
      ''toString'', ''valueOf'', ''__proto__'', ''toLocaleString'']"

subsection \<open>Dates\<close>

type_synonym timestamp = int

text \<open>\<open>tz\<close> is the offset of local time from UTC, in milliseconds. \<open>dayNumber\<close> is the local
  calendar day, which is what \<^verbatim>\<open>toDateString()\<close> identifies; 1 January 1970 was a
  Thursday (\<^verbatim>\<open>getDay() = 4\<close>).\<close>

definition getHours :: "int \<Rightarrow> timestamp \<Rightarrow> nat" where
  "getHours tz t = nat (((t + tz) div 3600000) mod 24)"

definition dayNumber :: "int \<Rightarrow> timestamp \<Rightarrow> int" where
  "dayNumber tz t = (t + tz) div 86400000"

definition weekdayOfDay :: "int \<Rightarrow> nat" where
  "weekdayOfDay d = nat ((d + 4) mod 7)"

definition getDay :: "int \<Rightarrow> timestamp \<Rightarrow> nat" where
  "getDay tz t = weekdayOfDay (dayNumber tz t)"

subsection \<open>Input records\<close>

text \<open>\<open>r_language\<close>, \<open>r_description\<close> and \<open>r_name\<close> may be \<^verbatim>\<open>null\<close>; \<open>r_fork\<close> is the
  truthiness of \<^verbatim>\<open>r.fork\<close>.\<close>

record repository =
  r_name :: "string option"
  r_language :: "string option"
  r_stargazers_count :: "int option"
  r_forks_count :: "int option"
  r_fork :: bool
  r_description :: "string option"
  r_created_at :: "timestamp option"
  r_updated_at :: "timestamp option"

text \<open>\<open>e_public\<close> is \<^verbatim>\<open>e.public\<close> when the field is a boolean; \<open>e_org\<close> is \<open>None\<close> without
  an organisation and \<open>Some l\<close> with one, \<open>l\<close> being \<^verbatim>\<open>e.org.login\<close>; \<open>e_repo\<close> is
  \<^verbatim>\<open>e.repo?.name\<close>; \<open>e_commits\<close> is \<^verbatim>\<open>e.payload?.commits?.length\<close>.\<close>

record event =
  e_type :: string
  e_created_at :: timestamp
  e_public :: "bool option"
  e_org :: "string option option"
  e_repo :: "string option"
  e_commits :: "nat option"

record user_data =
  login :: "string option"
  public_repos :: "int option"
  followers :: "int option"
  repositories :: "repository list option"
  events :: "event list option"

text \<open>\<^verbatim>\<open>userData.events || []\<close>, \<^verbatim>\<open>userData.repositories || []\<close>.\<close>

definition or_nil :: "'a list option \<Rightarrow> 'a list" where
  "or_nil xs = (case xs of None \<Rightarrow> [] | Some ys \<Rightarrow> ys)"

text \<open>\<^verbatim>\<open>repos.map(r => r.language).filter(Boolean)\<close>: \<^verbatim>\<open>null\<close> and the empty string are
  falsy.\<close>

definition languages_of :: "repository list \<Rightarrow> string list" where
  "languages_of repos =
     concat (map (\<lambda>r. case r_language r of None \<Rightarrow> [] | Some l \<Rightarrow> if l = [] then [] else [l]) repos)"

subsection \<open>Pattern analysis\<close>

definition analyzeTimeDistribution :: "int \<Rightarrow> event list \<Rightarrow> nat list" where
  "analyzeTimeDistribution tz evs =
     foldl (\<lambda>hourlyActivity e.
              let hour = getHours tz (e_created_at e)
              in hourlyActivity[hour := hourlyActivity ! hour + 1])
           (replicate 24 0) evs"

definition analyzeWeeklyPattern :: "int \<Rightarrow> event list \<Rightarrow> nat list" where
  "analyzeWeeklyPattern tz evs =
     foldl (\<lambda>weeklyActivity e.
              let day = getDay tz (e_created_at e)
              in weeklyActivity[day := weeklyActivity ! day + 1])
           (replicate 7 0) evs"

definition identifyPeakHours :: "nat list \<Rightarrow> nat list" where
  "identifyPeakHours hourlyDistribution =
     (let maxActivity = Math_max hourlyDistribution
      in map fst
           (filter (\<lambda>(hour, activity). real activity \<ge> real maxActivity * 0.8)
              (zip [0 ..< length hourlyDistribution] hourlyDistribution)))"

definition calculateVariance :: "real list \<Rightarrow> real" where
  "calculateVariance array =
     (if length array = 0 then 0
      else let mean = reduce_add array / real (length array)
           in foldl (\<lambda>sum val. sum + (val - mean)\<^sup>2) 0 array / real (length array))"

text \<open>The working styles, in the order of the decision tree:
  \<^verbatim>\<open>Getting Started\<close>, \<^verbatim>\<open>Consistent Night Owl\<close>, \<^verbatim>\<open>Irregular Night Coder\<close>,
  \<^verbatim>\<open>Early Bird Developer\<close>, \<^verbatim>\<open>Morning Burst Coder\<close>, \<^verbatim>\<open>Weekend Evening Warrior\<close>,
  \<^verbatim>\<open>Weekend Day Hacker\<close>, \<^verbatim>\<open>After-Hours Developer\<close>, \<^verbatim>\<open>Evening Sprint Coder\<close>,
  \<^verbatim>\<open>Afternoon Focused\<close>, \<^verbatim>\<open>Midday Momentum\<close>, \<^verbatim>\<open>Steady All-Day Contributor\<close>,
  \<^verbatim>\<open>Flexible Schedule Coder\<close>.\<close>

datatype working_style =
    GettingStarted | ConsistentNightOwl | IrregularNightCoder
  | EarlyBirdDeveloper | MorningBurstCoder
  | WeekendEveningWarrior | WeekendDayHacker
  | AfterHoursDeveloper | EveningSprintCoder
  | AfternoonFocused | MiddayMomentum
  | SteadyAllDayContributor | FlexibleScheduleCoder

text \<open>The source also computes a list \<^verbatim>\<open>peakHours\<close> here and never reads it.\<close>

definition determineWorkingStyle :: "nat list \<Rightarrow> nat list \<Rightarrow> working_style" where
  "determineWorkingStyle hourlyDist weeklyDist =
     (let totalActivity = reduce_add hourlyDist in
      if totalActivity = 0 then GettingStarted
      else
        let morningActivity = reduce_add (slice 6 12 hourlyDist);
            afternoonActivity = reduce_add (slice 12 18 hourlyDist);
            eveningActivity = reduce_add (slice 18 23 hourlyDist);
            nightActivity = reduce_add (drop 23 hourlyDist @ slice 0 6 hourlyDist);
            weekendActivity = nth_or0 weeklyDist 0 + nth_or0 weeklyDist 6;
            weekdayActivity = reduce_add (slice 1 6 weeklyDist);
            weekendRatio = real weekendActivity / real (max (weekendActivity + weekdayActivity) 1);
            weekdayVariance = calculateVariance (map real (slice 1 6 weeklyDist));
            isConsistent = (weekdayVariance < 2)
        in if real nightActivity > real totalActivity * 0.4 then
             (if isConsistent then ConsistentNightOwl else IrregularNightCoder)
           else if real morningActivity > real totalActivity * 0.4 then
             (if isConsistent then EarlyBirdDeveloper else MorningBurstCoder)
           else if weekendRatio > 0.4 then
             (if eveningActivity > afternoonActivity then WeekendEveningWarrior else WeekendDayHacker)
           else if real eveningActivity > real totalActivity * 0.4 then
             (if isConsistent then AfterHoursDeveloper else EveningSprintCoder)
           else if real afternoonActivity > real totalActivity * 0.4 then
             (if isConsistent then AfternoonFocused else MiddayMomentum)
           else if isConsistent then SteadyAllDayContributor
           else FlexibleScheduleCoder)"

subsection \<open>Personality classification\<close>

record metrics =
  innovation :: real
  collaboration :: real
  consistency :: real
  exploration :: real
  leadership :: real

text \<open>The personality types: \<^verbatim>\<open>Innovator\<close>, \<^verbatim>\<open>Team Player\<close>, \<^verbatim>\<open>Reliable Contributor\<close>,
  \<^verbatim>\<open>Technology Explorer\<close>, \<^verbatim>\<open>Balanced Developer\<close>.\<close>

datatype personality_type =
  Innovator | TeamPlayer | ReliableContributor | TechnologyExplorer | BalancedDeveloper

definition determinePersonalityType :: "metrics \<Rightarrow> personality_type" where
  "determinePersonalityType m =
     (if innovation m > 7 \<and> exploration m > 7 then Innovator
      else if collaboration m > 7 \<and> consistency m > 7 then TeamPlayer
      else if consistency m > 8 then ReliableContributor
      else if exploration m > 8 then TechnologyExplorer
      else BalancedDeveloper)"

subsection \<open>Score calculators\<close>

text \<open>Every calculator calls \<^verbatim>\<open>Math.random()\<close> at most once in an invocation; \<open>r\<close> is
  the value of that call, a number with \<open>0 \<le> r < 1\<close>. The source computes a few
  quantities it never reads (\<^verbatim>\<open>forkRatio\<close>, \<^verbatim>\<open>publicEvents\<close>, \<^verbatim>\<open>forkedRepos\<close>,
  \<^verbatim>\<open>documentedRepos\<close>, \<^verbatim>\<open>createEvents\<close>, \<^verbatim>\<open>releaseEvents\<close>, \<^verbatim>\<open>totalForks\<close>); they are
  left out.\<close>

definition innovativeKeywords :: "string list" where
  "innovativeKeywords =
     [''experiment'', ''prototype'', ''poc'', ''demo'', ''innovative'', ''cutting-edge'',
      ''ai'', ''ml'', ''blockchain'']"

text \<open>\<^verbatim>\<open>new Date(r.created_at || r.updated_at)\<close>; \<open>None\<close> is the invalid date.\<close>

definition repo_date :: "repository \<Rightarrow> timestamp option" where
  "repo_date r = (case r_created_at r of Some t \<Rightarrow> Some t | None \<Rightarrow> r_updated_at r)"

definition calculateInnovationScore :: "timestamp \<Rightarrow> real \<Rightarrow> repository list \<Rightarrow> real" where
  "calculateInnovationScore now r repos =
     (if length repos = 0 then r * 3 + 4
      else
        let uniqueLanguages = set_size (languages_of repos);
            originalRepos = length (filter (\<lambda>r. \<not> r_fork r) repos);
            totalRepos = length repos;
            experimentalRepos = length (filter (\<lambda>r.
                let desc = toLowerCase (or_empty (r_description r))
                in list_ex (\<lambda>keyword. str_includes desc keyword) innovativeKeywords) repos);
            recentRepos = length (filter (\<lambda>r.
                case repo_date r of
                  None \<Rightarrow> False
                | Some createdDate \<Rightarrow>
                    (let monthsAgo = real_of_int (now - createdDate) / (1000 * 60 * 60 * 24 * 30)
                     in monthsAgo \<le> 6)) repos);
            score = 0 + min 4 (real uniqueLanguages * 0.8)
                      + min 3 (real originalRepos / real (max totalRepos 1) * 4)
                      + min 2 (real experimentalRepos * 0.5)
                      + min 1 (real recentRepos / real (max totalRepos 1) * 2)
        in min 10 (max 1 score))"

definition is_collaborative :: "event \<Rightarrow> bool" where
  "is_collaborative e =
     (e_type e = ''PullRequestEvent'' \<or> e_type e = ''IssuesEvent'' \<or>
      e_type e = ''PullRequestReviewEvent'' \<or> e_type e = ''IssueCommentEvent'')"

definition calculateCollaborationScore :: "real \<Rightarrow> event list \<Rightarrow> real" where
  "calculateCollaborationScore r evs =
     (if length evs = 0 then r * 3 + 3
      else
        let collaborativeEvents = length (filter is_collaborative evs);
            orgEvents = length (filter (\<lambda>e. e_org e \<noteq> None) evs);
            watchEvents = length (filter (\<lambda>e. e_type e = ''WatchEvent'') evs);
            forkEvents = length (filter (\<lambda>e. e_type e = ''ForkEvent'') evs);
            score = 0 + min 4 (real collaborativeEvents / real (max (length evs) 1) * 10)
                      + min 2 (real orgEvents / real (max (length evs) 1) * 8)
                      + min 2 (real watchEvents / real (max (length evs) 1) * 20)
                      + min 2 (real forkEvents / real (max (length evs) 1) * 15)
        in min 10 (max 1 score))"

text \<open>\<^verbatim>\<open>groupEventsByDay\<close> builds an object keyed by \<^verbatim>\<open>toDateString()\<close>; the model keys it
  by the local day number and keeps the keys in insertion order, which is the order of
  \<^verbatim>\<open>Object.keys\<close>, \<^verbatim>\<open>Object.values\<close> and \<^verbatim>\<open>Object.entries\<close>.\<close>

fun group_push :: "int \<Rightarrow> event \<Rightarrow> (int \<times> event list) list \<Rightarrow> (int \<times> event list) list" where
  "group_push d e [] = [(d, [e])]"
| "group_push d e ((k, es) # groups) =
     (if k = d then (k, es @ [e]) # groups else (k, es) # group_push d e groups)"

definition groupEventsByDay :: "int \<Rightarrow> event list \<Rightarrow> (int \<times> event list) list" where
  "groupEventsByDay tz evs =
     foldl (\<lambda>groups e. group_push (dayNumber tz (e_created_at e)) e groups) [] evs"

text \<open>\<^verbatim>\<open>xs.reduce((a, b) => a + b)\<close> with no initial value; the source calls it on
  non-empty arrays only.\<close>

definition reduce_add1 :: "real list \<Rightarrow> real" where
  "reduce_add1 xs = foldl (\<lambda>a b. a + b) (hd xs) (tl xs)"

definition calculateConsistencyScore :: "int \<Rightarrow> real \<Rightarrow> event list \<Rightarrow> real" where
  "calculateConsistencyScore tz r evs =
     (if length evs < 5 then r * 4 + 3
      else
        let dailyActivity = groupEventsByDay tz evs;
            days = map fst dailyActivity
        in if length days < 7 then r * 3 + 4
           else
             let activityCounts = map (\<lambda>(date, day). real (length day)) dailyActivity;
                 mean = reduce_add activityCounts / real (length activityCounts);
                 variance = foldl (\<lambda>sum count. sum + (count - mean)\<^sup>2) 0 activityCounts
                              / real (length activityCounts);
                 stdDev = sqrt variance;
                 coefficientOfVariation = (if mean > 0 then stdDev / mean else 1);
                 is_weekend = (\<lambda>(date, dayEvents). weekdayOfDay date = 0 \<or> weekdayOfDay date = 6);
                 weekendActivity =
                   map (\<lambda>(date, dayEvents). real (length dayEvents)) (filter is_weekend dailyActivity);
                 weekdayActivity =
                   map (\<lambda>(date, dayEvents). real (length dayEvents))
                     (filter (\<lambda>g. \<not> is_weekend g) dailyActivity);
                 weekdayMean = (if length weekdayActivity \<noteq> 0
                                then reduce_add1 weekdayActivity / real (length weekdayActivity) else 0);
                 weekendMean = (if length weekendActivity \<noteq> 0
                                then reduce_add1 weekendActivity / real (length weekendActivity) else 0);
                 workLifeBalance = \<bar>weekdayMean - weekendMean\<bar> / max (max weekdayMean weekendMean) 1;
                 score = 10 - coefficientOfVariation * 5 + min 2 ((1 - workLifeBalance) * 2)
             in min 10 (max 1 score))"

definition languageCategories :: "(string \<times> string list) list" where
  "languageCategories =
     [(''frontend'', [''JavaScript'', ''TypeScript'', ''HTML'', ''CSS'', ''Vue'', ''React'']),
      (''backend'', [''Java'', ''Python'', ''C#'', ''PHP'', ''Ruby'', ''Go'', ''Rust'', ''Node.js'']),
      (''mobile'', [''Swift'', ''Kotlin'', ''Dart'', ''Objective-C'']),
      (''systems'', [''C'', ''C++'', ''Rust'', ''Assembly'']),
      (''data'', [''Python'', ''R'', ''Julia'', ''MATLAB'', ''Scala'']),
      (''functional'', [''Haskell'', ''Clojure'', ''F#'', ''Erlang'', ''Elixir''])]"

definition emergingTech :: "string list" where
  "emergingTech = [''Rust'', ''Go'', ''TypeScript'', ''Dart'', ''Julia'', ''Zig'', ''WebAssembly'']"

text \<open>The rules that add a tag to the set \<^verbatim>\<open>projectTypes\<close>, on the lower-cased name
  and description of a repository.\<close>

definition projectTypeRules :: "(string \<times> (string \<Rightarrow> string \<Rightarrow> bool)) list" where
  "projectTypeRules =
     [(''web'', \<lambda>name desc. str_includes name ''web'' \<or> str_includes desc ''website''),
      (''mobile'', \<lambda>name desc. str_includes name ''mobile'' \<or> str_includes desc ''android''
                                 \<or> str_includes desc ''ios''),
      (''api'', \<lambda>name desc. str_includes name ''api'' \<or> str_includes desc ''api''),
      (''cli'', \<lambda>name desc. str_includes name ''cli'' \<or> str_includes desc ''command''),
      (''library'', \<lambda>name desc. str_includes desc ''library'' \<or> str_includes desc ''framework''),
      (''game'', \<lambda>name desc. str_includes desc ''game''),
      (''ai'', \<lambda>name desc. str_includes desc ''ml'' \<or> str_includes desc ''ai'')]"

definition calculateExplorationScore :: "real \<Rightarrow> repository list \<Rightarrow> real" where
  "calculateExplorationScore r repos =
     (if length repos = 0 then r * 3 + 4
      else
        let languages = languages_of repos;
            uniqueLanguages = uniq languages;
            categoriesUsed = filter (\<lambda>(category, langs).
                list_ex (\<lambda>lang. lang \<in> set langs) uniqueLanguages) languageCategories;
            emergingCount = length (filter (\<lambda>lang. lang \<in> set emergingTech) uniqueLanguages);
            projectTypes = filter (\<lambda>(tag, rule).
                list_ex (\<lambda>repo. rule (toLowerCase (or_empty (r_name repo)))
                                       (toLowerCase (or_empty (r_description repo)))) repos)
                projectTypeRules;
            score = 0 + min 3 (real (length uniqueLanguages) * 0.5)
                      + min 3 (real (length categoriesUsed) * 0.8)
                      + min 2 (real emergingCount * 0.8)
                      + min 2 (real (length projectTypes) * 0.4)
        in min 10 (max 1 score))"

definition calculateLeadershipScore :: "real \<Rightarrow> repository list \<Rightarrow> event list \<Rightarrow> real" where
  "calculateLeadershipScore r repos evs =
     (if length repos = 0 \<and> length evs = 0 then r * 3 + 2
      else
        let ownedRepos = length (filter (\<lambda>r. \<not> r_fork r) repos);
            totalRepos = (if length repos = 0 then 1 else length repos);
            ownershipRatio = real ownedRepos / real totalRepos;
            starredRepos = length (filter (\<lambda>r. or_zero (r_stargazers_count r) > 5) repos);
            organizationEvents = length (filter (\<lambda>e. e_org e \<noteq> None) evs);
            mentorshipEvents = length (filter (\<lambda>e.
                e_type e = ''IssueCommentEvent'' \<or> e_type e = ''PullRequestReviewEvent'') evs);
            totalStars = foldl (\<lambda>sum repo. sum + or_zero (r_stargazers_count repo)) 0 repos;
            score = 0 + min 2 (ownershipRatio * 3)
                      + min 2 (real starredRepos / real (max totalRepos 1) * 4)
                      + min 2 (log 10 (real_of_int (max totalStars 1)) * 0.8)
                      + min 2 (real organizationEvents / real (max (length evs) 1) * 10)
                      + min 2 (real mentorshipEvents / real (max (length evs) 1) * 8)
        in min 10 (max 1 score))"

subsection \<open>Burnout risk\<close>

text \<open>The four levels \<^verbatim>\<open>Low\<close>, \<^verbatim>\<open>Low-Medium\<close>, \<^verbatim>\<open>Medium\<close>, \<^verbatim>\<open>High\<close>, and their order.\<close>

datatype risk_level = Low | LowMedium | Medium | High

fun risk_rank :: "risk_level \<Rightarrow> nat" where
  "risk_rank Low = 0"
| "risk_rank LowMedium = 1"
| "risk_rank Medium = 2"
| "risk_rank High = 3"

text \<open>The object returned for fewer than 20 events has no \<^verbatim>\<open>recommendations\<close> field.\<close>

record burnout_risk =
  b_level :: risk_level
  b_advice :: string
  b_score :: real
  b_recommendations :: "string list option"

definition assessBurnoutRisk :: "int \<Rightarrow> real \<Rightarrow> event list \<Rightarrow> nat list \<Rightarrow> burnout_risk" where
  "assessBurnoutRisk tz r evs weeklyPattern =
     (if length evs < 20 then
        \<lparr>b_level = Low, b_advice = ''Build consistent coding habits gradually'',
         b_score = r * 3 + 1, b_recommendations = None\<rparr>
      else
        let recentEvents = slice 0 (min 50 (length evs)) evs;
            intensity = real (length recentEvents) / real (min 30 (length evs));
            totalWeekly = reduce_add weeklyPattern;
            weekendWork = (if totalWeekly > 0
                           then real (nth_or0 weeklyPattern 0 + nth_or0 weeklyPattern 6) / real totalWeekly
                           else 0);
            hourlyDist = analyzeTimeDistribution tz recentEvents;
            totalHourly = reduce_add hourlyDist;
            lateNightWork = (if totalHourly > 0
                             then real (reduce_add (drop 22 hourlyDist) + reduce_add (slice 0 6 hourlyDist))
                                    / real totalHourly
                             else 0);
            dailyGroups = groupEventsByDay tz recentEvents;
            heavyDays = length (filter (\<lambda>(date, day). length day > 5) dailyGroups);
            clusteringScore = real heavyDays / real (max (length dailyGroups) 1);
            riskScore = (0::nat)
              + (if intensity > 3 then 3 else if intensity > 2 then 2
                 else if intensity > 1.5 then 1 else 0)
              + (if weekendWork > 0.4 then 3 else if weekendWork > 0.3 then 2
                 else if weekendWork > 0.2 then 1 else 0)
              + (if lateNightWork > 0.3 then 2 else if lateNightWork > 0.2 then 1 else 0)
              + (if clusteringScore > 0.5 then 2 else if clusteringScore > 0.3 then 1 else 0)
        in if riskScore \<ge> 7 then
             \<lparr>b_level = High, b_advice = ''Take immediate steps to prevent burnout'',
              b_score = real riskScore,
              b_recommendations = Some (slice 0 2
                [''Schedule regular breaks and vacation time'', ''Set boundaries for work hours'',
                 ''Consider delegating or reducing workload'',
                 ''Practice stress management techniques''])\<rparr>
           else if riskScore \<ge> 4 then
             \<lparr>b_level = Medium, b_advice = ''Monitor work intensity and maintain balance'',
              b_score = real riskScore,
              b_recommendations = Some (slice 0 2
                [''Establish consistent work hours'', ''Take weekends off when possible'',
                 ''Ensure adequate sleep schedule'',
                 ''Include non-coding activities in your routine''])\<rparr>
           else if riskScore \<ge> 2 then
             \<lparr>b_level = LowMedium, b_advice = ''Good work pattern with minor areas to watch'',
              b_score = real riskScore,
              b_recommendations = Some (slice 0 2
                [''Continue current healthy patterns'', ''Be mindful of late-night coding sessions'',
                 ''Maintain work-life separation''])\<rparr>
           else
             \<lparr>b_level = Low, b_advice = ''Healthy work pattern detected'',
              b_score = real riskScore,
              b_recommendations = Some (slice 0 2
                [''Excellent work-life balance'', ''Keep maintaining current habits'',
                 ''Consider sharing your approach with others''])\<rparr>)"

subsection \<open>Recommendation generators\<close>

text \<open>\<open>rec_icon\<close> holds the Unicode code points of the emoji. The summary object that
  \<^verbatim>\<open>analyzeBasicPatterns\<close> builds is read with \<^verbatim>\<open>|| []\<close> and \<^verbatim>\<open>|| 0\<close> defaults.\<close>

record recommendation =
  rec_type :: string
  rec_title :: string
  rec_description :: string
  rec_confidence :: real
  rec_icon :: "nat list"

record basic_patterns =
  bp_languages :: "string list option"
  bp_repoCount :: "int option"
  bp_followerCount :: "int option"
  bp_recentActivity :: "int option"

definition mk_rec :: "string \<Rightarrow> string \<Rightarrow> string \<Rightarrow> real \<Rightarrow> nat list \<Rightarrow> recommendation" where
  "mk_rec ty title desc conf icon =
     \<lparr>rec_type = ty, rec_title = title, rec_description = desc, rec_confidence = conf,
      rec_icon = icon\<rparr>"

definition generateTechRecommendations :: "basic_patterns \<Rightarrow> recommendation list" where
  "generateTechRecommendations insights =
     (let languages = or_nil (bp_languages insights);
          repoCount = or_zero (bp_repoCount insights);
          recentActivity = or_zero (bp_recentActivity insights);
          recommendations =
            (if ''JavaScript'' \<in> set languages then
               (if ''TypeScript'' \<notin> set languages then
                  [mk_rec ''Technology'' ''Upgrade to TypeScript''
                     ''Enhance your JavaScript projects with TypeScript for better type safety and developer experience.''
                     0.9 [0x1F4D8]]
                else [])
               @ (if ''React'' \<notin> set languages \<and> ''Vue'' \<notin> set languages then
                    [mk_rec ''Technology'' ''Learn React or Vue.js''
                       ''Modern frontend frameworks will boost your web development capabilities.''
                       0.8 [0x269B, 0xFE0F]]
                  else [])
             else [])
            @ (if ''Python'' \<in> set languages then
                 (if repoCount > 5 then
                    [mk_rec ''Technology'' ''Explore FastAPI''
                       ''Build high-performance APIs with Python using FastAPI framework.''
                       0.8 [0x1F680]]
                  else [])
                 @ (if ''Java'' \<notin> set languages \<and> ''Go'' \<notin> set languages then
                      [mk_rec ''Technology'' ''Try Go Programming''
                         ''Go offers excellent performance and simplicity, perfect for backend services.''
                         0.7 [0x1F439]]
                    else [])
               else [])
            @ (if ''Java'' \<in> set languages then
                 [mk_rec ''Technology'' ''Explore Kotlin''
                    ''Kotlin provides modern language features while maintaining Java compatibility.''
                    0.8 [0x1F3AF]]
               else [])
            @ (if recentActivity > 20 then
                 [mk_rec ''Technology'' ''Container Technologies''
                    ''Docker and Kubernetes can streamline your deployment process.''
                    0.9 [0x1F433]]
               else [])
            @ (if repoCount > 10 then
                 [mk_rec ''Technology'' ''CI/CD Automation''
                    ''GitHub Actions or Jenkins can automate your development workflow.''
                    0.85 [0x1F504]]
               else [])
            @ (if length languages = 0 then
                 [mk_rec ''Technology'' ''Start with JavaScript''
                    ''JavaScript is versatile and perfect for both frontend and backend development.''
                    0.9 [0x1F49B]]
               else [])
      in slice 0 3 recommendations)"

definition generateLearningRecommendations :: "basic_patterns \<Rightarrow> recommendation list" where
  "generateLearningRecommendations insights =
     (let languages = or_nil (bp_languages insights);
          repoCount = or_zero (bp_repoCount insights);
          followerCount = or_zero (bp_followerCount insights);
          recommendations =
            (if repoCount < 5 then
               [mk_rec ''Learning'' ''Git & GitHub Mastery''
                  ''Master version control and collaboration workflows to boost your development skills.''
                  0.95 [0x1F4DA],
                mk_rec ''Learning'' ''Algorithm & Data Structures''
                  ''Build strong programming fundamentals with algorithms and data structures.''
                  0.9 [0x1F9EE]]
             else if repoCount < 15 then
               [mk_rec ''Learning'' ''System Design Patterns''
                  ''Learn scalable architecture patterns for building robust applications.''
                  0.85 [0x1F3D7, 0xFE0F],
                mk_rec ''Learning'' ''Testing Best Practices''
                  ''Unit testing, integration testing, and TDD will improve your code quality.''
                  0.8 [0x1F9EA]]
             else
               [mk_rec ''Learning'' ''Cloud Architecture''
                  ''AWS, Azure, or GCP certifications can advance your cloud expertise.''
                  0.8 [0x2601, 0xFE0F],
                mk_rec ''Learning'' ''Technical Leadership''
                  ''Develop mentoring and team leadership skills for career advancement.''
                  0.75 [0x1F468, 0x200D, 0x1F3EB]])
            @ (if ''JavaScript'' \<in> set languages \<and> ''Python'' \<in> set languages then
                 [mk_rec ''Learning'' ''Full-Stack Development''
                    ''Combine your JavaScript and Python skills for end-to-end development.''
                    0.9 [0x1F504]]
               else [])
            @ (if followerCount > 50 then
                 [mk_rec ''Learning'' ''Developer Advocacy''
                    ''Your growing network suggests potential in developer relations and advocacy.''
                    0.7 [0x1F4E2]]
               else [])
      in slice 0 2 recommendations)"

definition generateProductivityRecommendations :: "basic_patterns \<Rightarrow> recommendation list" where
  "generateProductivityRecommendations insights =
     (let recentActivity = or_zero (bp_recentActivity insights);
          repoCount = or_zero (bp_repoCount insights);
          recommendations =
            (if recentActivity > 30 then
               [mk_rec ''Productivity'' ''Automate Repetitive Tasks''
                  ''High activity suggests you could benefit from automation scripts and tools.''
                  0.9 [0x1F916],
                mk_rec ''Productivity'' ''Time Management''
                  ''Consider time-blocking and the Pomodoro Technique for sustained productivity.''
                  0.8 [0x23F0]]
             else if recentActivity < 10 then
               [mk_rec ''Productivity'' ''Consistent Coding Schedule''
                  ''Establish a regular coding routine to maintain momentum and skills.''
                  0.85 [0x1F4C5]]
             else [])
            @ (if repoCount > 20 then
                 [mk_rec ''Productivity'' ''Repository Organization''
                    ''Organize repositories with clear documentation and naming conventions.''
                    0.8 [0x1F4C1]]
               else [])
            @ [mk_rec ''Productivity'' ''Code Review Practices''
                 ''Regular code reviews improve quality and knowledge sharing.''
                 0.75 [0x1F465]]
      in slice 0 2 recommendations)"

definition generateCareerRecommendations :: "basic_patterns \<Rightarrow> recommendation list" where
  "generateCareerRecommendations insights =
     (let repoCount = or_zero (bp_repoCount insights);
          followerCount = or_zero (bp_followerCount insights);
          languages = or_nil (bp_languages insights);
          recommendations =
            (if repoCount > 15 \<and> followerCount > 30 then
               [mk_rec ''Career'' ''Technical Leadership Role''
                  ''Your portfolio and network suggest readiness for senior or lead positions.''
                  0.85 [0x1F3AF]]
             else if repoCount > 8 then
               [mk_rec ''Career'' ''Senior Developer Position''
                  ''Your experience level indicates potential for advancement to senior roles.''
                  0.8 [0x2B06, 0xFE0F]]
             else [])
            @ (if length languages > 3 then
                 [mk_rec ''Career'' ''Full-Stack Development''
                    ''Your diverse language skills make you well-suited for full-stack roles.''
                    0.8 [0x1F310]]
               else [])
            @ (if followerCount > 100 then
                 [mk_rec ''Career'' ''Developer Relations''
                    ''Your strong community presence suggests potential in DevRel roles.''
                    0.75 [0x1F91D]]
               else [])
            @ [mk_rec ''Career'' ''Open Source Contribution''
                 ''Contributing to major projects can significantly boost your professional profile.''
                 0.9 [0x1F31F]]
            @ (if ''Python'' \<in> set languages \<or> ''JavaScript'' \<in> set languages then
                 [mk_rec ''Career'' ''Freelance Opportunities''
                    ''Your skills are in high demand for freelance and contract work.''
                    0.7 [0x1F4BC]]
               else [])
      in slice 0 2 recommendations)"

text \<open>\<^verbatim>\<open>userData.repositories?.map(r => r.language).filter(Boolean) || []\<close> and the three
  counts with their \<^verbatim>\<open>|| 0\<close>.\<close>

definition analyzeBasicPatterns :: "user_data \<Rightarrow> basic_patterns" where
  "analyzeBasicPatterns userData =
     \<lparr>bp_languages = Some (case repositories userData of None \<Rightarrow> [] | Some repos \<Rightarrow> languages_of repos),
      bp_repoCount = Some (or_zero (public_repos userData)),
      bp_followerCount = Some (or_zero (followers userData)),
      bp_recentActivity = Some (case events userData of None \<Rightarrow> 0 | Some evs \<Rightarrow> int (length evs))\<rparr>"

definition generateRecommendations :: "user_data \<Rightarrow> recommendation list" where
  "generateRecommendations userData =
     (let insights = analyzeBasicPatterns userData;
          recommendations =
            [] @ generateTechRecommendations insights
               @ generateLearningRecommendations insights
               @ generateProductivityRecommendations insights
               @ generateCareerRecommendations insights
      in slice 0 8 recommendations)"

subsection \<open>Predictions\<close>

text \<open>The table \<^verbatim>\<open>progressionMap\<close>: for a language, its \<^verbatim>\<open>primary\<close> and \<^verbatim>\<open>advanced\<close>
  follow-on technologies.\<close>

definition progressionMap :: "(string \<times> string list \<times> string list) list" where
  "progressionMap =
     [(''JavaScript'', [''TypeScript'', ''React'', ''Vue.js'', ''Node.js''],
                       [''Deno'', ''WebAssembly'', ''GraphQL'', ''Next.js'']),
      (''TypeScript'', [''React'', ''Angular'', ''Vue.js'', ''Svelte''],
                       [''NestJS'', ''Prisma'', ''tRPC'', ''SolidJS'']),
      (''Python'', [''Django'', ''FastAPI'', ''Flask'', ''TensorFlow''],
                   [''PyTorch'', ''Pandas'', ''Celery'', ''Airflow'']),
      (''Java'', [''Spring Boot'', ''Kotlin'', ''Maven'', ''Gradle''],
                 [''Quarkus'', ''Micronaut'', ''Scala'', ''Clojure'']),
      (''C#'', [''.NET Core'', ''ASP.NET'', ''Blazor'', ''Unity''],
               [''F#'', ''Azure Functions'', ''SignalR'', ''gRPC'']),
      (''Go'', [''Gin'', ''Echo'', ''Docker'', ''Kubernetes''],
               [''gRPC'', ''Cobra'', ''Viper'', ''NATS'']),
      (''Rust'', [''Actix'', ''Rocket'', ''Tokio'', ''Serde''],
                 [''WebAssembly'', ''Tauri'', ''Bevy'', ''egui'']),
      (''PHP'', [''Laravel'', ''Symfony'', ''Composer'', ''PHPUnit''],
                [''ReactPHP'', ''Swoole'', ''Psalm'', ''Rector''])]"

definition trendingTech :: "string list" where
  "trendingTech =
     [''Rust'', ''Go'', ''TypeScript'', ''Svelte'', ''Astro'', ''Deno'',
      ''WebAssembly'', ''Tauri'', ''SolidJS'', ''Qwik'', ''Fresh'', ''Bun'']"

text \<open>The loop \<^verbatim>\<open>recentLanguages.forEach(lang => { if (progressionMap[lang]) ... })\<close>,
  with \<open>suggestions\<close> the array it pushes to. For a language that is no key of the table
  but a name inherited from \<^verbatim>\<open>Object.prototype\<close>, \<^verbatim>\<open>progressionMap[lang]\<close> is truthy and
  its \<^verbatim>\<open>primary\<close> is \<^verbatim>\<open>undefined\<close>, so \<^verbatim>\<open>.primary.filter\<close> throws a TypeError.\<close>

fun progression_loop :: "string list \<Rightarrow> string list \<Rightarrow> string list \<Rightarrow> error + string list" where
  "progression_loop languages [] suggestions = Inr suggestions"
| "progression_loop languages (lang # rest) suggestions =
     (case map_of progressionMap lang of
        Some (primary0, advanced0) \<Rightarrow>
          (let primary = filter (\<lambda>tech. tech \<notin> set languages) primary0;
               advanced = filter (\<lambda>tech. tech \<notin> set languages) advanced0;
               pushed = suggestions @ slice 0 2 primary
           in progression_loop languages rest
                (if length (filter (\<lambda>l. l = lang) languages) \<ge> 3
                 then pushed @ slice 0 1 advanced else pushed))
      | None \<Rightarrow>
          if lang \<in> set inherited_names then Inl TypeError
          else progression_loop languages rest suggestions)"

definition getTechRecommendationReasoning :: "string list \<Rightarrow> nat \<Rightarrow> string" where
  "getTechRecommendationReasoning languages uniqueLanguages =
     (if uniqueLanguages \<ge> 5 then ''Based on your diverse technology experience''
      else if ''JavaScript'' \<in> set languages \<and> ''Python'' \<in> set languages then
        ''Perfect for full-stack development progression''
      else if ''JavaScript'' \<in> set languages then ''Natural evolution of your JavaScript skills''
      else if ''Python'' \<in> set languages then ''Complements your Python expertise well''
      else ''Popular choice for modern development'')"

record next_technology =
  nt_primary :: string
  nt_alternatives :: "string list"
  nt_confidence :: real
  nt_reasoning :: string

text \<open>The source also fills a table \<^verbatim>\<open>languageCount\<close> that it never reads.\<close>

definition predictNextTechnology :: "repository list \<Rightarrow> error + next_technology" where
  "predictNextTechnology repos =
     (let languages = languages_of repos;
          recentLanguages = languages_of (slice 0 5 repos)
      in case progression_loop languages recentLanguages [] of
           Inl e \<Rightarrow> Inl e
         | Inr suggestions0 \<Rightarrow>
             (let uniqueLanguages = set_size languages;
                  suggestions =
                    (if uniqueLanguages \<ge> 3 then
                       suggestions0 @ slice 0 2 (filter (\<lambda>tech. tech \<notin> set languages) trendingTech)
                     else suggestions0);
                  uniqueSuggestions = uniq suggestions;
                  confidence = min 0.9 (0.5 + real uniqueLanguages * 0.1 + real (length repos) * 0.01)
              in Inr \<lparr>nt_primary = (case uniqueSuggestions of [] \<Rightarrow> ''React'' | first # _ \<Rightarrow> first),
                      nt_alternatives = slice 1 4 uniqueSuggestions,
                      nt_confidence = confidence,
                      nt_reasoning = getTechRecommendationReasoning languages uniqueLanguages\<rparr>))"

text \<open>The activity trends: \<^verbatim>\<open>Building Momentum\<close>, \<^verbatim>\<open>Rapidly Increasing\<close>,
  \<^verbatim>\<open>Steadily Growing\<close>, \<^verbatim>\<open>Stable & Consistent\<close>, \<^verbatim>\<open>Slightly Decreasing\<close>,
  \<^verbatim>\<open>Needs Attention\<close>.\<close>

datatype activity_trend_label =
    BuildingMomentum | RapidlyIncreasing | SteadilyGrowing | StableAndConsistent
  | SlightlyDecreasing | NeedsAttention

record activity_trend =
  at_trend :: activity_trend_label
  at_confidence :: real
  at_description :: string

text \<open>The bullet character U+2022 that separates a suffix from a description, as its
  UTF-8 bytes.\<close>

definition bullet :: string where
  "bullet = [CHR 0xE2, CHR 0x80, CHR 0xA2]"

text \<open>\<^verbatim>\<open>Math.floor(n / 3)\<close> and \<^verbatim>\<open>Math.floor(n * 2 / 3)\<close> are \<open>n div 3\<close> and
  \<open>n * 2 div 3\<close>.\<close>

definition predictActivityTrend :: "event list \<Rightarrow> activity_trend" where
  "predictActivityTrend evs =
     (if length evs < 10 then
        \<lparr>at_trend = BuildingMomentum, at_confidence = 0.6,
         at_description = ''Start building consistent coding habits''\<rparr>
      else
        let recent = slice 0 (length evs div 3) evs;
            middle = slice (length evs div 3) (length evs * 2 div 3) evs;
            older = drop (length evs * 2 div 3) evs;
            recentActivity = length recent;
            middleActivity = length middle;
            olderActivity = length older;
            recentToMiddle = real recentActivity / real (max middleActivity 1);
            middleToOlder = real middleActivity / real (max olderActivity 1);
            overallTrend = (recentToMiddle + middleToOlder) / 2;
            commitEvents = length (filter (\<lambda>e. e_type e = ''PushEvent'') recent);
            collaborativeEvents = length (filter (\<lambda>e.
                e_type e = ''PullRequestEvent'' \<or> e_type e = ''IssuesEvent'') recent);
            (trend, description, confidence) =
              (if overallTrend > 1.3 then
                 (RapidlyIncreasing, ''Your coding activity is accelerating significantly'', 0.9)
               else if overallTrend > 1.1 then
                 (SteadilyGrowing, ''Consistent upward trend in development activity'', 0.8)
               else if overallTrend > 0.9 then
                 (StableAndConsistent, ''Maintaining steady development rhythm'', 0.9)
               else if overallTrend > 0.7 then
                 (SlightlyDecreasing, ''Minor decline, consider new projects for motivation'', 0.8)
               else
                 (NeedsAttention, ''Activity has decreased, time to reignite your coding passion'',
                  0.7));
            description' =
              (if collaborativeEvents > commitEvents then
                 description @ '' '' @ bullet @ '' Strong collaboration focus''
               else if commitEvents > collaborativeEvents * 2 then
                 description @ '' '' @ bullet @ '' High development velocity''
               else description)
        in \<lparr>at_trend = trend, at_confidence = confidence, at_description = description'\<rparr>)"

text \<open>Two quantities read off \<^verbatim>\<open>predictActivityTrend\<close>, used to state what its result
  depends on: the value of \<^verbatim>\<open>overallTrend\<close> for a list of \<open>n\<close> events, and the suffixes
  the function may append to a description.\<close>

definition overallTrend_of_length :: "nat \<Rightarrow> real" where
  "overallTrend_of_length n =
     (real (n div 3) / real (max (n * 2 div 3 - n div 3) 1)
      + real (n * 2 div 3 - n div 3) / real (max (n - n * 2 div 3) 1)) / 2"

definition activity_suffixes :: "string list" where
  "activity_suffixes =
     [[], '' '' @ bullet @ '' Strong collaboration focus'',
      '' '' @ bullet @ '' High development velocity'']"


text \<open>\<^verbatim>\<open>predictCollaborationGrowth\<close> and \<^verbatim>\<open>predictSkillDevelopment\<close> are each defined twice
  in the object literal; the definitions are named here after the line where they start.
  The collaboration trends of the first definition are \<^verbatim>\<open>Start Collaborating\<close>,
  \<^verbatim>\<open>Rapidly Expanding Network\<close>, \<^verbatim>\<open>Growing Collaboration\<close>, \<^verbatim>\<open>Stable Community Presence\<close>
  and \<^verbatim>\<open>Rebuild Connections\<close>; those of the second are \<^verbatim>\<open>Increasing Collaboration\<close>,
  \<^verbatim>\<open>Focusing Inward\<close> and \<^verbatim>\<open>Stable Collaboration\<close>. The second definition returns no
  \<^verbatim>\<open>suggestion\<close>.\<close>

datatype collaboration_trend =
    StartCollaborating | RapidlyExpandingNetwork | GrowingCollaboration
  | StableCommunityPresence | RebuildConnections
  | IncreasingCollaboration | FocusingInward | StableCollaboration

record collaboration_growth =
  cg_trend :: collaboration_trend
  cg_confidence :: real
  cg_suggestion :: "string option"

text \<open>\<^verbatim>\<open>e.org?.login\<close>.\<close>

definition org_login :: "event \<Rightarrow> string option" where
  "org_login e = (case e_org e of None \<Rightarrow> None | Some l \<Rightarrow> l)"

text \<open>\<^verbatim>\<open>xs.filter(Boolean)\<close> on optional strings.\<close>

definition truthy_strings :: "string option list \<Rightarrow> string list" where
  "truthy_strings xs =
     concat (map (\<lambda>x. case x of None \<Rightarrow> [] | Some l \<Rightarrow> if l = [] then [] else [l]) xs)"

definition predictCollaborationGrowth_1006 :: "event list \<Rightarrow> collaboration_growth" where
  "predictCollaborationGrowth_1006 evs =
     (let collaborativeEvents = filter is_collaborative evs in
      if length collaborativeEvents < 5 then
        \<lparr>cg_trend = StartCollaborating, cg_confidence = 0.7,
         cg_suggestion = Some ''Consider contributing to open source projects''\<rparr>
      else
        let recent = slice 0 (length collaborativeEvents div 2) collaborativeEvents;
            older = drop (length collaborativeEvents div 2) collaborativeEvents;
            recentCollab = length recent;
            olderCollab = length older;
            growthRatio = real recentCollab / real (max olderCollab 1);
            uniqueRepos = set_size (map e_repo collaborativeEvents);
            uniqueOrgs = set_size (truthy_strings (map org_login collaborativeEvents));
            (trend, suggestion, confidence) =
              (if growthRatio > 1.5 then
                 (RapidlyExpandingNetwork,
                  ''Excellent collaboration growth, consider mentoring others'', 0.9)
               else if growthRatio > 1.2 then
                 (GrowingCollaboration, ''Great progress in community engagement'', 0.8)
               else if growthRatio > 0.8 then
                 (StableCommunityPresence,
                  ''Consistent engagement, try exploring new communities'', 0.8)
               else
                 (RebuildConnections,
                  ''Re-engage with the community through issues and PRs'', 0.7));
            suggestion' =
              (if uniqueOrgs > 3 then suggestion @ '' '' @ bullet @ '' Strong multi-org presence''
               else if uniqueRepos > 10 then suggestion @ '' '' @ bullet @ '' Good project diversity''
               else suggestion)
        in \<lparr>cg_trend = trend, cg_confidence = confidence, cg_suggestion = Some suggestion'\<rparr>)"

definition predictCollaborationGrowth_1431 :: "event list \<Rightarrow> collaboration_growth" where
  "predictCollaborationGrowth_1431 evs =
     (let recent = slice 0 15 evs;
          older = slice 15 30 evs;
          recentCollab = length (filter (\<lambda>e.
              e_type e = ''PullRequestEvent'' \<or> e_type e = ''IssuesEvent'') recent);
          olderCollab = length (filter (\<lambda>e.
              e_type e = ''PullRequestEvent'' \<or> e_type e = ''IssuesEvent'') older)
      in if real recentCollab > real olderCollab * 1.3 then
           \<lparr>cg_trend = IncreasingCollaboration, cg_confidence = 0.8, cg_suggestion = None\<rparr>
         else if real recentCollab < real olderCollab * 0.7 then
           \<lparr>cg_trend = FocusingInward, cg_confidence = 0.7, cg_suggestion = None\<rparr>
         else
           \<lparr>cg_trend = StableCollaboration, cg_confidence = 0.9, cg_suggestion = None\<rparr>)"

text \<open>The learning velocities of the first definition are \<^verbatim>\<open>High - Active Learner\<close>,
  \<^verbatim>\<open>Moderate - Steady Growth\<close>, \<^verbatim>\<open>Slow but Steady\<close> and \<^verbatim>\<open>Deepening Expertise\<close>, its
  diversifications \<^verbatim>\<open>Polyglot Developer\<close>, \<^verbatim>\<open>Well-Rounded\<close>, \<^verbatim>\<open>Expanding Horizons\<close> and
  \<^verbatim>\<open>Specialist Focus\<close>; the second definition returns \<^verbatim>\<open>High\<close>, \<^verbatim>\<open>Moderate\<close> or
  \<^verbatim>\<open>Stable\<close> and \<^verbatim>\<open>Expanding\<close> or \<^verbatim>\<open>Deepening\<close>, and no \<^verbatim>\<open>insights\<close> or
  \<^verbatim>\<open>recommendations\<close>.\<close>

datatype learning_velocity =
    HighActiveLearner | ModerateSteadyGrowth | SlowButSteady | DeepeningExpertise
  | VelocityHigh | VelocityModerate | VelocityStable

datatype skill_diversification =
    PolyglotDeveloper | WellRounded | ExpandingHorizons | SpecialistFocus
  | Expanding | Deepening

record skill_development =
  sd_learningVelocity :: learning_velocity
  sd_skillDiversification :: skill_diversification
  sd_confidence :: real
  sd_insights :: "string option"
  sd_recommendations :: "string list option"

definition getSkillDevelopmentRecommendations :: "nat \<Rightarrow> nat \<Rightarrow> string list" where
  "getSkillDevelopmentRecommendations totalLanguages learningProjects =
     (if totalLanguages < 3 then
        [''Try a different programming paradigm (functional, object-oriented)'']
      else if totalLanguages < 5 then [''Explore cloud technologies or DevOps tools'']
      else [''Consider specializing in a specific domain (AI, security, etc.)''])
     @ (if learningProjects < 2 then [''Create more learning-focused repositories''] else [])"

definition learningKeywords :: "string list" where
  "learningKeywords =
     [''tutorial'', ''learning'', ''practice'', ''exercise'', ''course'', ''bootcamp'', ''study'']"

definition experimentalKeywords :: "string list" where
  "experimentalKeywords = [''experiment'', ''prototype'', ''demo'', ''test'', ''trial'', ''poc'']"

definition mentions :: "string list \<Rightarrow> repository \<Rightarrow> bool" where
  "mentions keywords r =
     (let name = toLowerCase (or_empty (r_name r));
          desc = toLowerCase (or_empty (r_description r))
      in list_ex (\<lambda>keyword. str_includes name keyword \<or> str_includes desc keyword) keywords)"

definition predictSkillDevelopment_1063 :: "repository list \<Rightarrow> event list \<Rightarrow> skill_development" where
  "predictSkillDevelopment_1063 repos evs =
     (let recentRepos = slice 0 (min 5 (length repos)) repos;
          allLanguages = uniq (languages_of repos);
          recentLanguages = uniq (languages_of recentRepos);
          learningProjects = length (filter (mentions learningKeywords) repos);
          experimentalProjects = length (filter (mentions experimentalKeywords) repos);
          totalLanguages = length allLanguages;
          newLanguages = length (filter (\<lambda>lang.
              \<not> list_ex (\<lambda>r. r_language r = Some lang) (drop 5 repos)) recentLanguages);
          (learningVelocity, insights) =
            (if learningProjects \<ge> 3 \<or> experimentalProjects \<ge> 2 then
               (HighActiveLearner, ''Strong commitment to continuous learning'')
             else if learningProjects \<ge> 1 \<or> newLanguages \<ge> 2 then
               (ModerateSteadyGrowth, ''Consistent skill development pattern'')
             else if newLanguages \<ge> 1 then
               (SlowButSteady, ''Gradual expansion of skill set'')
             else (DeepeningExpertise, ''Focusing on mastering current technologies''));
          skillDiversification =
            (if totalLanguages \<ge> 6 then PolyglotDeveloper
             else if totalLanguages \<ge> 4 then WellRounded
             else if totalLanguages \<ge> 2 then ExpandingHorizons
             else SpecialistFocus);
          confidence = min 0.9 (0.6 + real (length repos) * 0.02 + real totalLanguages * 0.05)
      in \<lparr>sd_learningVelocity = learningVelocity,
          sd_skillDiversification = skillDiversification,
          sd_confidence = confidence,
          sd_insights = Some insights,
          sd_recommendations =
            Some (getSkillDevelopmentRecommendations totalLanguages learningProjects)\<rparr>)"

text \<open>\<^verbatim>\<open>r.description?.includes(k)\<close>: case-sensitive, and falsy without a description.\<close>

definition description_includes :: "repository \<Rightarrow> string \<Rightarrow> bool" where
  "description_includes r k =
     (case r_description r of None \<Rightarrow> False | Some d \<Rightarrow> str_includes d k)"

definition predictSkillDevelopment_1452 :: "repository list \<Rightarrow> event list \<Rightarrow> skill_development" where
  "predictSkillDevelopment_1452 repos evs =
     (let recentRepos = slice 0 5 repos;
          recentLanguages = uniq (languages_of recentRepos);
          experimentalProjects = length (filter (\<lambda>r.
              description_includes r ''learning'' \<or> description_includes r ''tutorial''
              \<or> description_includes r ''experiment'') recentRepos)
      in \<lparr>sd_learningVelocity =
            (if experimentalProjects > 2 then VelocityHigh
             else if experimentalProjects > 0 then VelocityModerate else VelocityStable),
          sd_skillDiversification = (if length recentLanguages > 2 then Expanding else Deepening),
          sd_confidence = 0.7,
          sd_insights = None,
          sd_recommendations = None\<rparr>)"

subsection \<open>The object literal and its duplicated keys\<close>

text \<open>An object literal is evaluated property by property, in source order, each
  definition storing its value under its key; a key that occurs again replaces the value
  stored before. \<open>DevPulseAI_properties\<close> lists, in source order (lines 1006, 1063, 1431
  and 1452), the property definitions of the two keys that occur twice;
  \<^verbatim>\<open>this.predictCollaborationGrowth\<close> and \<^verbatim>\<open>this.predictSkillDevelopment\<close> read the
  resulting object.\<close>

datatype engine_method =
    CollaborationGrowthMethod "event list \<Rightarrow> collaboration_growth"
  | SkillDevelopmentMethod "repository list \<Rightarrow> event list \<Rightarrow> skill_development"

definition object_literal :: "(string \<times> 'v) list \<Rightarrow> (string \<rightharpoonup> 'v)" where
  "object_literal props = foldl (\<lambda>obj (key, v). obj(key \<mapsto> v)) Map.empty props"

definition DevPulseAI_properties :: "(string \<times> engine_method) list" where
  "DevPulseAI_properties =
     [(''predictCollaborationGrowth'', CollaborationGrowthMethod predictCollaborationGrowth_1006),
      (''predictSkillDevelopment'', SkillDevelopmentMethod predictSkillDevelopment_1063),
      (''predictCollaborationGrowth'', CollaborationGrowthMethod predictCollaborationGrowth_1431),
      (''predictSkillDevelopment'', SkillDevelopmentMethod predictSkillDevelopment_1452)]"

definition DevPulseAI :: "string \<rightharpoonup> engine_method" where
  "DevPulseAI = object_literal DevPulseAI_properties"

record predictions =
  nextTechnology :: next_technology
  activityTrend :: activity_trend
  collaborationGrowth :: collaboration_growth
  skillDevelopment :: skill_development

text \<open>Calling a property that is missing or no function of the expected kind is a
  TypeError.\<close>

definition generatePredictions :: "user_data \<Rightarrow> error + predictions" where
  "generatePredictions userData =
     (let evs = or_nil (events userData);
          repos = or_nil (repositories userData)
      in case predictNextTechnology repos of
           Inl e \<Rightarrow> Inl e
         | Inr nextTech \<Rightarrow>
             (case (DevPulseAI ''predictCollaborationGrowth'', DevPulseAI ''predictSkillDevelopment'') of
                (Some (CollaborationGrowthMethod this_predictCollaborationGrowth),
                 Some (SkillDevelopmentMethod this_predictSkillDevelopment)) \<Rightarrow>
                  Inr \<lparr>nextTechnology = nextTech,
                       activityTrend = predictActivityTrend evs,
                       collaborationGrowth = this_predictCollaborationGrowth evs,
                       skillDevelopment = this_predictSkillDevelopment repos evs\<rparr>
              | _ \<Rightarrow> Inl TypeError))"

subsection \<open>Personality profile\<close>

text \<open>The source looks the description up in a table keyed by the five types; its
  fallback text for a missing key cannot be reached.\<close>

fun generatePersonalityDescription_of :: "personality_type \<Rightarrow> string" where
  "generatePersonalityDescription_of Innovator =
     ''You love experimenting with new technologies and creating original solutions.''"
| "generatePersonalityDescription_of TeamPlayer =
     ''You excel at collaboration and maintain consistent, reliable contributions.''"
| "generatePersonalityDescription_of ReliableContributor =
     ''You are known for consistent, high-quality work and dependability.''"
| "generatePersonalityDescription_of TechnologyExplorer =
     ''You enjoy learning diverse technologies and exploring new domains.''"
| "generatePersonalityDescription_of BalancedDeveloper =
     ''You maintain a well-rounded approach to development and collaboration.''"

definition generatePersonalityDescription :: "metrics \<Rightarrow> string" where
  "generatePersonalityDescription m =
     generatePersonalityDescription_of (determinePersonalityType m)"

definition identifyStrengths :: "metrics \<Rightarrow> string list" where
  "identifyStrengths m =
     (let strengths =
            (if innovation m > 7 then [''Innovation & Creativity''] else [])
            @ (if collaboration m > 7 then [''Team Collaboration''] else [])
            @ (if consistency m > 7 then [''Reliable Delivery''] else [])
            @ (if exploration m > 7 then [''Technology Adaptability''] else [])
            @ (if leadership m > 7 then [''Technical Leadership''] else [])
      in if length strengths \<noteq> 0 then strengths
         else [''Dedicated Development'', ''Problem Solving''])"

definition identifyGrowthAreas :: "metrics \<Rightarrow> string list" where
  "identifyGrowthAreas m =
     (let areas =
            (if innovation m < 5 then [''Experiment with new technologies''] else [])
            @ (if collaboration m < 5 then [''Increase community involvement''] else [])
            @ (if consistency m < 5 then [''Develop regular coding habits''] else [])
            @ (if exploration m < 5 then [''Try diverse programming languages''] else [])
            @ (if leadership m < 5 then [''Take ownership of projects''] else [])
      in if length areas \<noteq> 0 then areas else [''Continue current excellent practices''])"

text \<open>The values of the calls of \<^verbatim>\<open>Math.random()\<close> that one run of \<^verbatim>\<open>generateInsights\<close> can
  make: one in each of the five score calculators, and one in each of the two calls of
  \<^verbatim>\<open>assessBurnoutRisk\<close> (from \<^verbatim>\<open>analyzeWorkPatterns\<close> and from \<^verbatim>\<open>analyzeRisks\<close>).\<close>

record draws =
  d_innovation :: real
  d_collaboration :: real
  d_consistency :: real
  d_exploration :: real
  d_leadership :: real
  d_burnout_workPatterns :: real
  d_burnout_risks :: real

record personality_profile =
  pp_type :: personality_type
  pp_scores :: metrics
  pp_description :: string
  pp_strengths :: "string list"
  pp_growthAreas :: "string list"

definition analyzePersonalityProfile :: "timestamp \<Rightarrow> int \<Rightarrow> draws \<Rightarrow> user_data \<Rightarrow> personality_profile" where
  "analyzePersonalityProfile now tz d userData =
     (let evs = or_nil (events userData);
          repos = or_nil (repositories userData);
          m = \<lparr>innovation = calculateInnovationScore now (d_innovation d) repos,
               collaboration = calculateCollaborationScore (d_collaboration d) evs,
               consistency = calculateConsistencyScore tz (d_consistency d) evs,
               exploration = calculateExplorationScore (d_exploration d) repos,
               leadership = calculateLeadershipScore (d_leadership d) repos evs\<rparr>
      in \<lparr>pp_type = determinePersonalityType m,
          pp_scores = m,
          pp_description = generatePersonalityDescription m,
          pp_strengths = identifyStrengths m,
          pp_growthAreas = identifyGrowthAreas m\<rparr>)"

subsection \<open>Work patterns\<close>

record project_juggling =
  uniqueProjects :: nat
  averageEventsPerProject :: jsnum
  multitaskingScore :: real

text \<open>\<^verbatim>\<open>repoActivity\<close> gets a key for every truthy repository name, except that an
  assignment to \<^verbatim>\<open>__proto__\<close> creates none. With no key at all the average is
  \<^verbatim>\<open>totalEvents / 0\<close>, which is \<^verbatim>\<open>Infinity\<close> since \<^verbatim>\<open>totalEvents\<close> is at least 1.\<close>

definition analyzeProjectJuggling :: "event list \<Rightarrow> project_juggling" where
  "analyzeProjectJuggling evs =
     (let repoNames = truthy_strings (map e_repo evs);
          uniqueRepos = set_size (filter (\<lambda>repo. repo \<noteq> ''__proto__'') repoNames);
          totalEvents = (if length evs = 0 then 1 else length evs)
      in \<lparr>uniqueProjects = uniqueRepos,
          averageEventsPerProject =
            (if uniqueRepos = 0 then Infinity else Finite (real totalEvents / real uniqueRepos)),
          multitaskingScore = min 10 (real uniqueRepos / 5 * 10)\<rparr>)"

record session_length =
  sl_average :: string
  sl_pattern :: string

text \<open>The events of a day are sorted by time; a gap is the distance in minutes between
  neighbours.\<close>

definition day_gaps :: "event list \<Rightarrow> real list" where
  "day_gaps dayEvents =
     (let times = sort (map e_created_at dayEvents)
      in map (\<lambda>(earlier, later). real_of_int (later - earlier) / (1000 * 60)) (zip times (tl times)))"

definition estimateSessionLength :: "int \<Rightarrow> event list \<Rightarrow> session_length" where
  "estimateSessionLength tz evs =
     (if length evs < 2 then \<lparr>sl_average = ''Unknown'', sl_pattern = ''Insufficient data''\<rparr>
      else
        let dailyEvents = groupEventsByDay tz evs;
            sessionLengths = concat (map (\<lambda>(date, dayEvents).
                if length dayEvents < 2 then []
                else filter (\<lambda>gap. gap < 240) (day_gaps dayEvents)) dailyEvents)
        in if length sessionLengths = 0 then
             \<lparr>sl_average = ''1-2 hours'', sl_pattern = ''Focused sessions''\<rparr>
           else
             let averageGap = reduce_add sessionLengths / real (length sessionLengths)
             in if averageGap < 30 then
                  \<lparr>sl_average = ''Short bursts'', sl_pattern = ''Frequent check-ins''\<rparr>
                else if averageGap < 120 then
                  \<lparr>sl_average = ''1-2 hours'', sl_pattern = ''Focused sessions''\<rparr>
                else \<lparr>sl_average = ''2+ hours'', sl_pattern = ''Deep work sessions''\<rparr>)"

definition calculateWorkConsistency :: "nat list \<Rightarrow> real" where
  "calculateWorkConsistency weeklyPattern =
     (let totalActivity = reduce_add weeklyPattern in
      if totalActivity = 0 then 5
      else
        let mean = real totalActivity / 7;
            variance = foldl (\<lambda>sum day. sum + (real day - mean)\<^sup>2) 0 weeklyPattern / 7;
            stdDev = sqrt variance
        in max 0 (min 10 (10 - stdDev / mean * 3)))"

record work_patterns =
  peakHours :: "nat list"
  workingStyle :: working_style
  sessionLength :: session_length
  multitasking :: project_juggling
  wp_consistency :: real
  wp_burnoutRisk :: burnout_risk

definition analyzeWorkPatterns :: "int \<Rightarrow> draws \<Rightarrow> user_data \<Rightarrow> work_patterns" where
  "analyzeWorkPatterns tz d userData =
     (let evs = or_nil (events userData);
          hourlyDistribution = analyzeTimeDistribution tz evs;
          weeklyPattern = analyzeWeeklyPattern tz evs;
          projectJuggling = analyzeProjectJuggling evs
      in \<lparr>peakHours = identifyPeakHours hourlyDistribution,
          workingStyle = determineWorkingStyle hourlyDistribution weeklyPattern,
          sessionLength = estimateSessionLength tz evs,
          multitasking = projectJuggling,
          wp_consistency = calculateWorkConsistency weeklyPattern,
          wp_burnoutRisk = assessBurnoutRisk tz (d_burnout_workPatterns d) evs weeklyPattern\<rparr>)"

subsection \<open>Coding style\<close>

text \<open>\<^verbatim>\<open>calculateDistribution\<close> counts in a plain object. For an item that is a name
  inherited from \<^verbatim>\<open>Object.prototype\<close> the count starts from the inherited value and ends as
  a string, so that its frequency is \<^verbatim>\<open>NaN\<close>; \<^verbatim>\<open>__proto__\<close> never becomes a key.\<close>

definition calculateDistribution :: "string list \<Rightarrow> (string \<rightharpoonup> jsnum)" where
  "calculateDistribution items =
     (\<lambda>key. if key \<in> set items \<and> key \<noteq> ''__proto__'' then
              Some (if key \<in> set inherited_names then NaN
                    else Finite (real (count_list items key) / real (length items)))
            else None)"

definition analyzeLanguagePreferences :: "repository list \<Rightarrow> (string \<rightharpoonup> jsnum)" where
  "analyzeLanguagePreferences repos = calculateDistribution (languages_of repos)"

text \<open>The rules of \<^verbatim>\<open>categorizeProjectTypes\<close> and of \<^verbatim>\<open>analyzeArchitectureStyle\<close>, on
  the lower-cased name and description, in the order in which a repository pushes its
  tags. (An array is truthy, so the \<^verbatim>\<open>|| [...]\<close> fallbacks of both functions are never
  taken.)\<close>

definition categoryRules :: "(string \<times> (string \<Rightarrow> string \<Rightarrow> bool)) list" where
  "categoryRules =
     [(''API Development'', \<lambda>name desc. str_includes name ''api'' \<or> str_includes desc ''api''),
      (''Web Development'', \<lambda>name desc. str_includes name ''web'' \<or> str_includes desc ''website''),
      (''Mobile Development'', \<lambda>name desc. str_includes name ''mobile''
          \<or> str_includes desc ''android'' \<or> str_includes desc ''ios''),
      (''Game Development'', \<lambda>name desc. str_includes name ''game'' \<or> str_includes desc ''game''),
      (''Machine Learning'', \<lambda>name desc. str_includes name ''ml''
          \<or> str_includes desc ''machine learning'' \<or> str_includes desc ''ai''),
      (''Developer Tools'', \<lambda>name desc. str_includes name ''tool'' \<or> str_includes desc ''tool''
          \<or> str_includes desc ''utility''),
      (''Library Development'', \<lambda>name desc. str_includes name ''lib''
          \<or> str_includes desc ''library'')]"

definition architectureRules :: "(string \<times> (string \<Rightarrow> string \<Rightarrow> bool)) list" where
  "architectureRules =
     [(''Microservices'', \<lambda>name desc. str_includes desc ''microservice''
          \<or> str_includes desc ''micro-service''),
      (''Monolithic'', \<lambda>name desc. str_includes desc ''monolith''),
      (''Serverless'', \<lambda>name desc. str_includes desc ''serverless'' \<or> str_includes desc ''lambda''),
      (''Containerized'', \<lambda>name desc. str_includes desc ''docker''
          \<or> str_includes desc ''container''),
      (''MV* Pattern'', \<lambda>name desc. str_includes desc ''mvc'' \<or> str_includes desc ''mvp''
          \<or> str_includes desc ''mvvm'')]"

definition pushed_tags :: "(string \<times> (string \<Rightarrow> string \<Rightarrow> bool)) list \<Rightarrow> repository list \<Rightarrow> string list" where
  "pushed_tags rules repos =
     concat (map (\<lambda>repo.
        let name = toLowerCase (or_empty (r_name repo));
            desc = toLowerCase (or_empty (r_description repo))
        in map fst (filter (\<lambda>(tag, rule). rule name desc) rules)) repos)"

definition categorizeProjectTypes :: "repository list \<Rightarrow> string list" where
  "categorizeProjectTypes repos = slice 0 5 (uniq (pushed_tags categoryRules repos))"

definition analyzeArchitectureStyle :: "repository list \<Rightarrow> string list" where
  "analyzeArchitectureStyle repos = slice 0 3 (uniq (pushed_tags architectureRules repos))"

record commit_style =
  cs_style :: string
  cs_pattern :: string

text \<open>\<^verbatim>\<open>e.payload?.commits?.length || 1\<close>.\<close>

definition commit_count :: "event \<Rightarrow> nat" where
  "commit_count e = (case e_commits e of None \<Rightarrow> 1 | Some n \<Rightarrow> if n = 0 then 1 else n)"

definition analyzeCommitStyle :: "event list \<Rightarrow> commit_style" where
  "analyzeCommitStyle evs =
     (let pushEvents = filter (\<lambda>e. e_type e = ''PushEvent'') evs in
      if length pushEvents = 0 then
        \<lparr>cs_style = ''Unknown'', cs_pattern = ''No push events found''\<rparr>
      else
        let commitCounts = map (\<lambda>e. real (commit_count e)) pushEvents;
            averageCommitsPerPush = reduce_add commitCounts / real (length commitCounts)
        in if averageCommitsPerPush < 2 then
             \<lparr>cs_style = ''Atomic Commits'', cs_pattern = ''Small, focused changes''\<rparr>
           else if averageCommitsPerPush < 5 then
             \<lparr>cs_style = ''Moderate Batches'', cs_pattern = ''Balanced approach''\<rparr>
           else \<lparr>cs_style = ''Large Batches'', cs_pattern = ''Comprehensive changes''\<rparr>)"

definition analyzeTestingApproach :: "repository list \<Rightarrow> string" where
  "analyzeTestingApproach repos =
     (let testIndicators = filter (\<lambda>repo.
              let name = toLowerCase (or_empty (r_name repo));
                  desc = toLowerCase (or_empty (r_description repo))
              in str_includes name ''test'' \<or> str_includes desc ''test''
                 \<or> str_includes desc ''testing'') repos;
          testRatio = real (length testIndicators)
                        / real (if length repos = 0 then 1 else length repos)
      in if testRatio > 0.3 then ''Test-Driven Development''
         else if testRatio > 0.1 then ''Testing-Aware''
         else ''Exploratory Development'')"

record coding_style =
  languagePreferences :: "string \<rightharpoonup> jsnum"
  projectTypes :: "string list"
  commitStyle :: commit_style
  testingApproach :: string
  architectureStyle :: "string list"

definition analyzeCodingStyle :: "user_data \<Rightarrow> coding_style" where
  "analyzeCodingStyle userData =
     (let repos = or_nil (repositories userData);
          evs = or_nil (events userData)
      in \<lparr>languagePreferences = analyzeLanguagePreferences repos,
          projectTypes = categorizeProjectTypes repos,
          commitStyle = analyzeCommitStyle evs,
          testingApproach = analyzeTestingApproach repos,
          architectureStyle = analyzeArchitectureStyle repos\<rparr>)"

subsection \<open>Collaboration style\<close>

definition assessTeamPlayerScore :: "event list \<Rightarrow> real" where
  "assessTeamPlayerScore evs =
     (let collaborativeEvents = length (filter is_collaborative evs)
      in min 10 (real collaborativeEvents / real (if length evs = 0 then 1 else length evs) * 20))"

definition analyzeMentorshipStyle :: "event list \<Rightarrow> string" where
  "analyzeMentorshipStyle evs =
     (let helpfulEvents = length (filter (\<lambda>e.
              e_type e = ''IssueCommentEvent'' \<or> e_type e = ''PullRequestReviewEvent'') evs)
      in if helpfulEvents > 20 then ''Active Mentor''
         else if helpfulEvents > 10 then ''Helpful Contributor''
         else if helpfulEvents > 5 then ''Occasional Helper''
         else ''Focus on Own Work'')"

definition analyzeCommunicationStyle :: "event list \<Rightarrow> string" where
  "analyzeCommunicationStyle evs =
     (let communicationEvents = length (filter (\<lambda>e.
              e_type e = ''IssueCommentEvent'' \<or> e_type e = ''PullRequestReviewEvent''
              \<or> e_type e = ''IssuesEvent'') evs);
          ratio = real communicationEvents / real (if length evs = 0 then 1 else length evs)
      in if ratio > 0.4 then ''Highly Communicative''
         else if ratio > 0.2 then ''Good Communicator''
         else if ratio > 0.1 then ''Moderate Communicator''
         else ''Task-Focused'')"

definition assessLeadershipTendencies :: "repository list \<Rightarrow> event list \<Rightarrow> string" where
  "assessLeadershipTendencies repos evs =
     (let ownedRepos = length (filter (\<lambda>r. \<not> r_fork r) repos);
          starredRepos = foldl (\<lambda>total repo. total + or_zero (r_stargazers_count repo)) 0 repos;
          organizationActivity = length (filter (\<lambda>e. e_org e \<noteq> None) evs);
          leadership = (real ownedRepos * 2 + real_of_int starredRepos * 0.1
                          + real organizationActivity * 0.5) / 10
      in if leadership > 8 then ''Strong Leader''
         else if leadership > 5 then ''Emerging Leader''
         else if leadership > 2 then ''Team Contributor''
         else ''Individual Contributor'')"

record network_size =
  repositoryNetwork :: nat
  organizationNetwork :: nat
  networkScore :: real

definition estimateNetworkSize :: "event list \<Rightarrow> network_size" where
  "estimateNetworkSize evs =
     (let uniqueRepos = set_size (truthy_strings (map e_repo evs));
          uniqueOrgs = set_size (truthy_strings (map org_login evs))
      in \<lparr>repositoryNetwork = uniqueRepos,
          organizationNetwork = uniqueOrgs,
          networkScore = min 10 (real uniqueRepos * 0.2 + real uniqueOrgs * 2)\<rparr>)"

record collaboration_style =
  teamPlayer :: real
  mentorshipStyle :: string
  communicationStyle :: string
  cs_leadership :: string
  networkSize :: network_size

definition analyzeCollaborationStyle :: "user_data \<Rightarrow> collaboration_style" where
  "analyzeCollaborationStyle userData =
     (let evs = or_nil (events userData);
          repos = or_nil (repositories userData)
      in \<lparr>teamPlayer = assessTeamPlayerScore evs,
          mentorshipStyle = analyzeMentorshipStyle evs,
          communicationStyle = analyzeCommunicationStyle evs,
          cs_leadership = assessLeadershipTendencies repos evs,
          networkSize = estimateNetworkSize evs\<rparr>)"

subsection \<open>Risk analysis\<close>

record risk_note =
  rn_level :: risk_level
  rn_advice :: string

definition assessSkillStagnation :: "repository list \<Rightarrow> risk_note" where
  "assessSkillStagnation repos =
     (let languages = languages_of repos;
          uniqueLanguages = set_size languages;
          recentLanguages = set_size (languages_of (slice 0 5 repos))
      in if real recentLanguages < real uniqueLanguages * 0.3 then
           \<lparr>rn_level = Medium,
            rn_advice = ''Consider exploring new technologies to maintain growth''\<rparr>
         else \<lparr>rn_level = Low, rn_advice = ''Good variety in technology exploration''\<rparr>)"

definition assessCollaborationIsolation :: "event list \<Rightarrow> risk_note" where
  "assessCollaborationIsolation evs =
     (let collaborativeEvents = length (filter (\<lambda>e.
              e_type e = ''PullRequestEvent'' \<or> e_type e = ''IssuesEvent''
              \<or> e_type e = ''PullRequestReviewEvent'') evs);
          collaborationRatio = real collaborativeEvents
                                 / real (if length evs = 0 then 1 else length evs)
      in if collaborationRatio < 0.1 then
           \<lparr>rn_level = High, rn_advice = ''Consider engaging more with the GitHub community''\<rparr>
         else if collaborationRatio < 0.2 then
           \<lparr>rn_level = Medium, rn_advice = ''Good collaboration, consider expanding your network''\<rparr>
         else \<lparr>rn_level = Low, rn_advice = ''Excellent community engagement''\<rparr>)"

record risk_analysis =
  ra_burnoutRisk :: burnout_risk
  skillStagnation :: risk_note
  collaborationIsolation :: risk_note

definition analyzeRisks :: "int \<Rightarrow> draws \<Rightarrow> user_data \<Rightarrow> risk_analysis" where
  "analyzeRisks tz d userData =
     (let evs = or_nil (events userData);
          repos = or_nil (repositories userData)
      in \<lparr>ra_burnoutRisk =
            assessBurnoutRisk tz (d_burnout_risks d) evs (analyzeWeeklyPattern tz evs),
          skillStagnation = assessSkillStagnation repos,
          collaborationIsolation = assessCollaborationIsolation evs\<rparr>)"

subsection \<open>The entry point\<close>

record insights =
  personalityProfile :: personality_profile
  workPatterns :: work_patterns
  codingStyle :: coding_style
  collaborationStyle :: collaboration_style
  recommendations :: "recommendation list"
  predictions :: predictions
  riskAnalysis :: risk_analysis

text \<open>\<^verbatim>\<open>generateInsights\<close> is an \<^verbatim>\<open>async\<close> method: it resolves with the record or rejects
  with the error that a callee threw. \<^verbatim>\<open>generatePredictions\<close> is the only callee that can
  throw.\<close>

definition generateInsights :: "timestamp \<Rightarrow> int \<Rightarrow> draws \<Rightarrow> user_data \<Rightarrow> error + insights" where
  "generateInsights now tz d userData =
     (case generatePredictions userData of
        Inl e \<Rightarrow> Inl e
      | Inr preds \<Rightarrow>
          Inr \<lparr>personalityProfile = analyzePersonalityProfile now tz d userData,
               workPatterns = analyzeWorkPatterns tz d userData,
               codingStyle = analyzeCodingStyle userData,
               collaborationStyle = analyzeCollaborationStyle userData,
               recommendations = generateRecommendations userData,
               predictions = preds,
               riskAnalysis = analyzeRisks tz d userData\<rparr>)"

text \<open>The conditions under which a run draws a random placeholder: those of the five score
  calculators and that of \<^verbatim>\<open>assessBurnoutRisk\<close>.\<close>

definition takes_placeholder_branch :: "int \<Rightarrow> user_data \<Rightarrow> bool" where
  "takes_placeholder_branch tz userData =
     (let evs = or_nil (events userData);
          repos = or_nil (repositories userData)
      in length repos = 0
         \<or> length evs = 0
         \<or> length evs < 5 \<or> length (groupEventsByDay tz evs) < 7
         \<or> (length repos = 0 \<and> length evs = 0)
         \<or> length evs < 20)"

subsection \<open>Sample inputs\<close>

text \<open>An event with only a type and a timestamp, as the demo data of \<^verbatim>\<open>app.js\<close> has them
  (there with a repository name as well).\<close>

definition mk_event :: "string \<Rightarrow> timestamp \<Rightarrow> event" where
  "mk_event ty t =
     \<lparr>e_type = ty, e_created_at = t, e_public = None, e_org = None, e_repo = None,
      e_commits = None\<rparr>"

text \<open>Five events on each day from Monday 15 January 2024 to Friday 19 January 2024 (UTC),
  at 9, 11, 13, 15 and 17 o'clock.\<close>

definition week_events :: "event list" where
  "week_events =
     concat (map (\<lambda>d. map (\<lambda>h. mk_event ''PushEvent'' (1705276800000 + d * 86400000 + h * 3600000))
                          [9, 11, 13, 15, 17])
                 [0, 1, 2, 3, 4])"

text \<open>Ten push events, one an hour, in the ten hours before
  \<open>sample_now\<close> = 2 November 2026, 12:00 UTC.\<close>

definition sample_now :: timestamp where
  "sample_now = 1793620800000"

definition ten_pushes :: "event list" where
  "ten_pushes = map (\<lambda>k. mk_event ''PushEvent'' (sample_now - k * 3600000)) [1, 2, 3, 4, 5, 6, 7, 8, 9, 10]"

text \<open>The demo user of \<^verbatim>\<open>handleAIDemoClick\<close> in \<^verbatim>\<open>app.js\<close>: six repositories, none with a
  date, and ten events of January 2024.\<close>

definition demo_repo :: "string \<Rightarrow> string \<Rightarrow> int \<Rightarrow> string \<Rightarrow> repository" where
  "demo_repo name lang stars desc =
     \<lparr>r_name = Some name, r_language = Some lang, r_stargazers_count = Some stars,
      r_forks_count = None, r_fork = False, r_description = Some desc,
      r_created_at = None, r_updated_at = None\<rparr>"

definition demo_repositories :: "repository list" where
  "demo_repositories =
     [demo_repo ''web-app'' ''JavaScript'' 23 ''Modern web application with React'',
      demo_repo ''ai-chatbot'' ''Python'' 45 ''AI-powered chatbot using machine learning'',
      demo_repo ''mobile-app'' ''TypeScript'' 12 ''Cross-platform mobile application'',
      demo_repo ''data-analysis'' ''Python'' 67 ''Data analysis toolkit for researchers'',
      demo_repo ''game-engine'' ''C++'' 89 ''Lightweight 2D game engine'',
      demo_repo ''api-server'' ''Node.js'' 34 ''RESTful API server with authentication'']"

definition demo_event :: "string \<Rightarrow> timestamp \<Rightarrow> string \<Rightarrow> event" where
  "demo_event ty t repo = (mk_event ty t)\<lparr>e_repo := Some repo\<rparr>"

definition demo_events :: "event list" where
  "demo_events =
     [demo_event ''PushEvent'' 1705329000000 ''demo-user/web-app'',
      demo_event ''IssuesEvent'' 1705227300000 ''demo-user/ai-chatbot'',
      demo_event ''PullRequestEvent'' 1705164300000 ''demo-user/mobile-app'',
      demo_event ''CreateEvent'' 1705051200000 ''demo-user/data-analysis'',
      demo_event ''PushEvent'' 1705005000000 ''demo-user/game-engine'',
      demo_event ''IssueCommentEvent'' 1704892500000 ''demo-user/api-server'',
      demo_event ''PullRequestReviewEvent'' 1704800700000 ''demo-user/web-app'',
      demo_event ''PushEvent'' 1704727200000 ''demo-user/ai-chatbot'',
      demo_event ''ForkEvent'' 1704616200000 ''demo-user/mobile-app'',
      demo_event ''WatchEvent'' 1704561000000 ''demo-user/data-analysis'']"

definition demo_user :: user_data where
  "demo_user =
     \<lparr>login = Some ''demo-user'', public_repos = Some 42, followers = Some 156,
      repositories = Some demo_repositories, events = Some demo_events\<rparr>"

text \<open>Twelve issue events at the timestamps of twelve push events.\<close>

definition twelve_pushes :: "event list" where
  "twelve_pushes =
     map (\<lambda>k. mk_event ''PushEvent'' (sample_now - k * 3600000)) [1, 2, 3, 4, 5, 6, 7, 8, 9, 10, 11, 12]"

definition twelve_issues :: "event list" where
  "twelve_issues =
     map (\<lambda>k. mk_event ''IssuesEvent'' (sample_now - k * 3600000)) [1, 2, 3, 4, 5, 6, 7, 8, 9, 10, 11, 12]"

text \<open>The input \<^verbatim>\<open>{repositories: [], events: []}\<close>.\<close>

definition empty_input :: user_data where
  "empty_input =
     \<lparr>login = None, public_repos = None, followers = None,
      repositories = Some [], events = Some []\<rparr>"

text \<open>Every draw is a value of \<^verbatim>\<open>Math.random()\<close>, at least 0 and below 1.\<close>

definition valid_draws :: "draws \<Rightarrow> bool" where
  "valid_draws d =
     (0 \<le> d_innovation d \<and> d_innovation d < 1
      \<and> 0 \<le> d_collaboration d \<and> d_collaboration d < 1
      \<and> 0 \<le> d_consistency d \<and> d_consistency d < 1
      \<and> 0 \<le> d_exploration d \<and> d_exploration d < 1
      \<and> 0 \<le> d_leadership d \<and> d_leadership d < 1
      \<and> 0 \<le> d_burnout_workPatterns d \<and> d_burnout_workPatterns d < 1
      \<and> 0 \<le> d_burnout_risks d \<and> d_burnout_risks d < 1)"

definition all_draws :: "real \<Rightarrow> draws" where
  "all_draws r =
     \<lparr>d_innovation = r, d_collaboration = r, d_consistency = r, d_exploration = r,
      d_leadership = r, d_burnout_workPatterns = r, d_burnout_risks = r\<rparr>"

text \<open>Thirty push events, three a day on ten days from 15 January 2024 (UTC), and the demo
  user with these events.\<close>

definition busy_events :: "event list" where
  "busy_events =
     concat (map (\<lambda>d. map (\<lambda>h. mk_event ''PushEvent'' (1705276800000 + d * 86400000 + h * 3600000))
                          [9, 13, 17])
                 [0, 1, 2, 3, 4, 5, 6, 7, 8, 9])"

definition busy_user :: user_data where
  "busy_user = demo_user\<lparr>events := Some busy_events\<rparr>"


section \<open>Properties\<close>

lemma Math_max_replicate_0: "Math_max (replicate n 0) = 0"
  by (induction n) (simp_all add: Math_max_def)

lemma no_events_buckets:
  "analyzeTimeDistribution tz [] = replicate 24 0"
  "analyzeWeeklyPattern tz [] = replicate 7 0"
  by (simp_all add: analyzeTimeDistribution_def analyzeWeeklyPattern_def)

lemma identifyPeakHours_all_zero: "identifyPeakHours (replicate 24 0) = [0 ..< 24]"
proof -
  have z: "zip [0 ..< 24] (replicate 24 (0::nat)) = map (\<lambda>h. (h, 0)) [0 ..< 24]"
    by (simp add: upt_rec numeral_eq_Suc)
  show ?thesis
    unfolding identifyPeakHours_def
    by (simp add: Math_max_replicate_0 z filter_map comp_def Let_def)
qed

text \<open>
  C10. With no events every hourly bucket is 0, so the maximum is 0 and every bucket
  reaches 80 percent of it: \<^verbatim>\<open>identifyPeakHours\<close> returns all 24 hours, 0 to 23.
\<close>

theorem identifyPeakHours_no_events:
  "identifyPeakHours (analyzeTimeDistribution tz []) = [0 ..< 24]"
  by (simp add: no_events_buckets(1) identifyPeakHours_all_zero)

text \<open>
  C6. \<^verbatim>\<open>determinePersonalityType\<close> applies its threshold rules in order and the first
  rule that matches decides: innovation and exploration above 7 give Innovator; failing
  that, collaboration and consistency above 7 give Team Player; failing that,
  consistency above 8 gives Reliable Contributor; failing that, exploration above 8 gives
  Technology Explorer; failing all four, the type is Balanced Developer.
\<close>

theorem determinePersonalityType_first_match:
  fixes m :: metrics
  defines "r1 \<equiv> innovation m > 7 \<and> exploration m > 7"
      and "r2 \<equiv> collaboration m > 7 \<and> consistency m > 7"
      and "r3 \<equiv> consistency m > 8"
      and "r4 \<equiv> exploration m > 8"
  shows "(r1 \<longrightarrow> determinePersonalityType m = Innovator)
       \<and> (\<not> r1 \<and> r2 \<longrightarrow> determinePersonalityType m = TeamPlayer)
       \<and> (\<not> r1 \<and> \<not> r2 \<and> r3 \<longrightarrow> determinePersonalityType m = ReliableContributor)
       \<and> (\<not> r1 \<and> \<not> r2 \<and> \<not> r3 \<and> r4 \<longrightarrow> determinePersonalityType m = TechnologyExplorer)
       \<and> (\<not> r1 \<and> \<not> r2 \<and> \<not> r3 \<and> \<not> r4 \<longrightarrow> determinePersonalityType m = BalancedDeveloper)"
  by (auto simp add: determinePersonalityType_def r1_def r2_def r3_def r4_def)

theorem determinePersonalityType_first_match_witness:
  "determinePersonalityType
     \<lparr>innovation = 8, collaboration = 8, consistency = 9, exploration = 9, leadership = 1\<rparr>
     = Innovator
   \<and> determinePersonalityType
     \<lparr>innovation = 7, collaboration = 8, consistency = 9, exploration = 9, leadership = 1\<rparr>
     = TeamPlayer
   \<and> determinePersonalityType
     \<lparr>innovation = 7, collaboration = 7, consistency = 9, exploration = 9, leadership = 1\<rparr>
     = ReliableContributor
   \<and> determinePersonalityType
     \<lparr>innovation = 7, collaboration = 7, consistency = 8, exploration = 9, leadership = 1\<rparr>
     = TechnologyExplorer
   \<and> determinePersonalityType
     \<lparr>innovation = 7, collaboration = 7, consistency = 8, exploration = 8, leadership = 1\<rparr>
     = BalancedDeveloper"
  using
    determinePersonalityType_first_match
      [of "\<lparr>innovation = 8, collaboration = 8, consistency = 9, exploration = 9, leadership = 1\<rparr>"]
    determinePersonalityType_first_match
      [of "\<lparr>innovation = 7, collaboration = 8, consistency = 9, exploration = 9, leadership = 1\<rparr>"]
    determinePersonalityType_first_match
      [of "\<lparr>innovation = 7, collaboration = 7, consistency = 9, exploration = 9, leadership = 1\<rparr>"]
    determinePersonalityType_first_match
      [of "\<lparr>innovation = 7, collaboration = 7, consistency = 8, exploration = 9, leadership = 1\<rparr>"]
    determinePersonalityType_first_match
      [of "\<lparr>innovation = 7, collaboration = 7, consistency = 8, exploration = 8, leadership = 1\<rparr>"]
  by simp

lemma no_weekend_activity_no_weekend_style:
  assumes "nth_or0 weeklyDist 0 = 0" and "nth_or0 weeklyDist 6 = 0"
  shows "determineWorkingStyle hourlyDist weeklyDist \<noteq> WeekendEveningWarrior"
    and "determineWorkingStyle hourlyDist weeklyDist \<noteq> WeekendDayHacker"
  using assms by (simp_all add: determineWorkingStyle_def Let_def)

text \<open>
  C7. When the weekly buckets are uniform over Monday to Friday and empty on Saturday
  and Sunday, and there are at least 20 events, \<^verbatim>\<open>determineWorkingStyle\<close> returns neither
  Weekend Evening Warrior nor Weekend Day Hacker: the weekend ratio is 0.
\<close>

theorem determineWorkingStyle_uniform_weekdays:
  assumes "analyzeWeeklyPattern tz evs = [0, k, k, k, k, k, 0]"
      and "length evs \<ge> 20"
  shows "determineWorkingStyle (analyzeTimeDistribution tz evs) (analyzeWeeklyPattern tz evs)
           \<noteq> WeekendEveningWarrior
       \<and> determineWorkingStyle (analyzeTimeDistribution tz evs) (analyzeWeeklyPattern tz evs)
           \<noteq> WeekendDayHacker"
proof -
  have "nth_or0 (analyzeWeeklyPattern tz evs) 0 = 0" "nth_or0 (analyzeWeeklyPattern tz evs) 6 = 0"
    using assms(1) by (simp_all add: nth_or0_def)
  then show ?thesis
    using no_weekend_activity_no_weekend_style by blast
qed

lemma week_events_pattern: "analyzeWeeklyPattern 0 week_events = [0, 5, 5, 5, 5, 5, 0]"
  by code_simp

lemma week_events_length: "length week_events = 25"
  by (simp add: week_events_def)

theorem determineWorkingStyle_uniform_weekdays_witness:
  "analyzeWeeklyPattern 0 week_events = [0, 5, 5, 5, 5, 5, 0]
   \<and> length week_events \<ge> 20
   \<and> determineWorkingStyle (analyzeTimeDistribution 0 week_events) (analyzeWeeklyPattern 0 week_events)
        \<noteq> WeekendEveningWarrior
   \<and> determineWorkingStyle (analyzeTimeDistribution 0 week_events) (analyzeWeeklyPattern 0 week_events)
        \<noteq> WeekendDayHacker"
  using determineWorkingStyle_uniform_weekdays [of 0 week_events 5]
  by (simp add: week_events_pattern week_events_length)

lemma range_clamp: "1 \<le> min 10 (max 1 (x::real)) \<and> min 10 (max 1 x) \<le> 10"
  by (simp add: min_le_iff_disj)

lemma range_if:
  "(c \<Longrightarrow> 1 \<le> a \<and> a \<le> 10) \<Longrightarrow> (\<not> c \<Longrightarrow> 1 \<le> b \<and> b \<le> 10)
   \<Longrightarrow> 1 \<le> (if c then a else b) \<and> (if c then a else b) \<le> (10::real)"
  by simp

lemma calculateInnovationScore_range:
  assumes "0 \<le> r" and "r < 1"
  shows "1 \<le> calculateInnovationScore now r repos \<and> calculateInnovationScore now r repos \<le> 10"
  unfolding calculateInnovationScore_def Let_def
  using assms by (intro range_if range_clamp) simp

lemma calculateCollaborationScore_range:
  assumes "0 \<le> r" and "r < 1"
  shows "1 \<le> calculateCollaborationScore r evs \<and> calculateCollaborationScore r evs \<le> 10"
  unfolding calculateCollaborationScore_def Let_def
  using assms by (intro range_if range_clamp) simp

lemma calculateConsistencyScore_range:
  assumes "0 \<le> r" and "r < 1"
  shows "1 \<le> calculateConsistencyScore tz r evs \<and> calculateConsistencyScore tz r evs \<le> 10"
  unfolding calculateConsistencyScore_def Let_def
  using assms by (intro range_if range_clamp) simp_all

lemma calculateExplorationScore_range:
  assumes "0 \<le> r" and "r < 1"
  shows "1 \<le> calculateExplorationScore r repos \<and> calculateExplorationScore r repos \<le> 10"
  unfolding calculateExplorationScore_def Let_def
  using assms by (intro range_if range_clamp) simp

lemma calculateLeadershipScore_range:
  assumes "0 \<le> r" and "r < 1"
  shows "1 \<le> calculateLeadershipScore r repos evs \<and> calculateLeadershipScore r repos evs \<le> 10"
  unfolding calculateLeadershipScore_def Let_def
  using assms by (intro range_if range_clamp) simp

text \<open>
  C3. Each of the five personality score calculators returns a score in the closed
  interval from 1 to 10, for every input collection (the empty one included) and
  whatever value \<open>r\<close> in \<open>[0, 1)\<close> the call of \<^verbatim>\<open>Math.random()\<close> in a placeholder
  branch draws.
\<close>

theorem score_calculators_in_1_10:
  assumes "0 \<le> r" and "r < 1"
  shows "1 \<le> calculateInnovationScore now r repos \<and> calculateInnovationScore now r repos \<le> 10
       \<and> 1 \<le> calculateCollaborationScore r evs \<and> calculateCollaborationScore r evs \<le> 10
       \<and> 1 \<le> calculateConsistencyScore tz r evs \<and> calculateConsistencyScore tz r evs \<le> 10
       \<and> 1 \<le> calculateExplorationScore r repos \<and> calculateExplorationScore r repos \<le> 10
       \<and> 1 \<le> calculateLeadershipScore r repos evs \<and> calculateLeadershipScore r repos evs \<le> 10"
  using calculateInnovationScore_range [OF assms] calculateCollaborationScore_range [OF assms]
    calculateConsistencyScore_range [OF assms] calculateExplorationScore_range [OF assms]
    calculateLeadershipScore_range [OF assms]
  by blast

theorem score_calculators_in_1_10_witness:
  "(0::real) \<le> 1 / 2 \<and> (1::real) / 2 < 1
   \<and> 1 \<le> calculateInnovationScore sample_now (1 / 2) []
   \<and> calculateInnovationScore sample_now (1 / 2) [] \<le> 10
   \<and> 1 \<le> calculateCollaborationScore (1 / 2) week_events
   \<and> calculateCollaborationScore (1 / 2) week_events \<le> 10
   \<and> 1 \<le> calculateConsistencyScore 0 (1 / 2) week_events
   \<and> calculateConsistencyScore 0 (1 / 2) week_events \<le> 10
   \<and> 1 \<le> calculateExplorationScore (1 / 2) []
   \<and> calculateExplorationScore (1 / 2) [] \<le> 10
   \<and> 1 \<le> calculateLeadershipScore (1 / 2) [] week_events
   \<and> calculateLeadershipScore (1 / 2) [] week_events \<le> 10"
  using score_calculators_in_1_10 [of "1 / 2" sample_now "[]" week_events 0]
  by simp

text \<open>
  C1, as the code has it. An event list of fewer than 20 events, so in particular one of
  exactly 10 push events of the last 24 hours, gets the level Low, the lowest of the four:
  the guard on the length returns, with a fixed advice, a placeholder score in \<open>[1, 4)\<close>
  and no recommendations, before the intensity or any other threshold is looked at.
\<close>

theorem assessBurnoutRisk_fewer_than_20:
  assumes "length evs < 20" and "0 \<le> r" and "r < 1"
  shows "b_level (assessBurnoutRisk tz r evs weeklyPattern) = Low
       \<and> b_advice (assessBurnoutRisk tz r evs weeklyPattern) = ''Build consistent coding habits gradually''
       \<and> 1 \<le> b_score (assessBurnoutRisk tz r evs weeklyPattern)
       \<and> b_score (assessBurnoutRisk tz r evs weeklyPattern) < 4
       \<and> b_recommendations (assessBurnoutRisk tz r evs weeklyPattern) = None"
  using assms by (simp add: assessBurnoutRisk_def)

lemma ten_pushes_length: "length ten_pushes = 10"
  by (simp add: ten_pushes_def)

lemma ten_pushes_shape:
  "list_all (\<lambda>e. e_type e = ''PushEvent'' \<and> sample_now - 24 * 3600000 \<le> e_created_at e
                 \<and> e_created_at e \<le> sample_now) ten_pushes"
  by (simp add: ten_pushes_def mk_event_def sample_now_def)

theorem assessBurnoutRisk_fewer_than_20_witness:
  "length ten_pushes < 20 \<and> (0::real) \<le> 1 / 2 \<and> (1::real) / 2 < 1
   \<and> b_level (assessBurnoutRisk 0 (1 / 2) ten_pushes (analyzeWeeklyPattern 0 ten_pushes)) = Low
   \<and> b_advice (assessBurnoutRisk 0 (1 / 2) ten_pushes (analyzeWeeklyPattern 0 ten_pushes))
       = ''Build consistent coding habits gradually''
   \<and> 1 \<le> b_score (assessBurnoutRisk 0 (1 / 2) ten_pushes (analyzeWeeklyPattern 0 ten_pushes))
   \<and> b_score (assessBurnoutRisk 0 (1 / 2) ten_pushes (analyzeWeeklyPattern 0 ten_pushes)) < 4
   \<and> b_recommendations (assessBurnoutRisk 0 (1 / 2) ten_pushes (analyzeWeeklyPattern 0 ten_pushes))
       = None"
  using assessBurnoutRisk_fewer_than_20
          [of ten_pushes "1 / 2" 0 "analyzeWeeklyPattern 0 ten_pushes"]
  by (simp add: ten_pushes_length)

text \<open>
  The claim as first stated fails on these ten push events: the level returned is Low,
  which is below Low-Medium.
\<close>

theorem assessBurnoutRisk_ten_pushes_counterexample:
  "\<not> risk_rank LowMedium
       \<le> risk_rank (b_level (assessBurnoutRisk 0 (1 / 2) ten_pushes (analyzeWeeklyPattern 0 ten_pushes)))"
  by (simp add: assessBurnoutRisk_def ten_pushes_length)

lemma suffix_cases:
  "\<exists>s. s \<in> set [[], A, B] \<and> (if c1 then D @ A else if c2 then D @ B else D) = D @ s"
  by auto

lemma predictActivityTrend_by_length:
  assumes "length evs \<ge> 10"
  shows "at_trend (predictActivityTrend evs) =
     (if overallTrend_of_length (length evs) > 1.3 then RapidlyIncreasing
      else if overallTrend_of_length (length evs) > 1.1 then SteadilyGrowing
      else if overallTrend_of_length (length evs) > 0.9 then StableAndConsistent
      else if overallTrend_of_length (length evs) > 0.7 then SlightlyDecreasing
      else NeedsAttention)"
    and "at_confidence (predictActivityTrend evs) =
     (if overallTrend_of_length (length evs) > 1.3 then 0.9
      else if overallTrend_of_length (length evs) > 1.1 then 0.8
      else if overallTrend_of_length (length evs) > 0.9 then 0.9
      else if overallTrend_of_length (length evs) > 0.7 then 0.8
      else 0.7)"
    and "\<exists>s. s \<in> set activity_suffixes \<and> at_description (predictActivityTrend evs) =
     (if overallTrend_of_length (length evs) > 1.3 then
        ''Your coding activity is accelerating significantly''
      else if overallTrend_of_length (length evs) > 1.1 then
        ''Consistent upward trend in development activity''
      else if overallTrend_of_length (length evs) > 0.9 then
        ''Maintaining steady development rhythm''
      else if overallTrend_of_length (length evs) > 0.7 then
        ''Minor decline, consider new projects for motivation''
      else ''Activity has decreased, time to reignite your coding passion'') @ s"
proof -
  have a: "\<not> length evs < 10" using assms by simp
  have m: "min (length evs) (length evs div 3) = length evs div 3"
          "min (length evs - length evs div 3) (length evs * 2 div 3 - length evs div 3)
             = length evs * 2 div 3 - length evs div 3"
    by simp_all
  note norm = a if_False length_take length_drop m minus_nat.diff_0 fst_conv snd_conv
    activity_trend.simps if_distrib [of fst] if_distrib [of snd]
    if_distrib [of "\<lambda>p. fst (snd p)"] if_distrib [of "\<lambda>p. snd (snd p)"]
  show "at_trend (predictActivityTrend evs) =
     (if overallTrend_of_length (length evs) > 1.3 then RapidlyIncreasing
      else if overallTrend_of_length (length evs) > 1.1 then SteadilyGrowing
      else if overallTrend_of_length (length evs) > 0.9 then StableAndConsistent
      else if overallTrend_of_length (length evs) > 0.7 then SlightlyDecreasing
      else NeedsAttention)"
    unfolding predictActivityTrend_def Let_def slice_def split_def overallTrend_of_length_def
    by (simp only: norm)
  show "at_confidence (predictActivityTrend evs) =
     (if overallTrend_of_length (length evs) > 1.3 then 0.9
      else if overallTrend_of_length (length evs) > 1.1 then 0.8
      else if overallTrend_of_length (length evs) > 0.9 then 0.9
      else if overallTrend_of_length (length evs) > 0.7 then 0.8
      else 0.7)"
    unfolding predictActivityTrend_def Let_def slice_def split_def overallTrend_of_length_def
    by (simp only: norm)
  show "\<exists>s. s \<in> set activity_suffixes \<and> at_description (predictActivityTrend evs) =
     (if overallTrend_of_length (length evs) > 1.3 then
        ''Your coding activity is accelerating significantly''
      else if overallTrend_of_length (length evs) > 1.1 then
        ''Consistent upward trend in development activity''
      else if overallTrend_of_length (length evs) > 0.9 then
        ''Maintaining steady development rhythm''
      else if overallTrend_of_length (length evs) > 0.7 then
        ''Minor decline, consider new projects for motivation''
      else ''Activity has decreased, time to reignite your coding passion'') @ s"
    unfolding predictActivityTrend_def Let_def slice_def split_def overallTrend_of_length_def
      activity_suffixes_def
    by (simp only: norm) (rule suffix_cases)
qed

text \<open>
  C9. Two event lists of the same length \<open>n \<ge> 10\<close> get the same trend label and the same
  confidence from \<^verbatim>\<open>predictActivityTrend\<close>: the three chunks are cut by position, so their
  sizes depend on \<open>n\<close> alone. Only the suffix appended to the description looks at the
  events: the two descriptions share their base text and each ends in one of the
  three possible suffixes (the empty one included).
\<close>

theorem predictActivityTrend_same_length:
  assumes "length evs1 = length evs2" and "length evs1 \<ge> 10"
  shows "at_trend (predictActivityTrend evs1) = at_trend (predictActivityTrend evs2)
       \<and> at_confidence (predictActivityTrend evs1) = at_confidence (predictActivityTrend evs2)
       \<and> (\<exists>base s1 s2. s1 \<in> set activity_suffixes \<and> s2 \<in> set activity_suffixes
             \<and> at_description (predictActivityTrend evs1) = base @ s1
             \<and> at_description (predictActivityTrend evs2) = base @ s2)"
proof -
  from assms have l2: "length evs2 \<ge> 10" by simp
  have t: "at_trend (predictActivityTrend evs1) = at_trend (predictActivityTrend evs2)"
    using assms by (simp only: predictActivityTrend_by_length(1))
  have c: "at_confidence (predictActivityTrend evs1) = at_confidence (predictActivityTrend evs2)"
    using assms by (simp only: predictActivityTrend_by_length(2))
  from predictActivityTrend_by_length(3) [OF assms(2)] predictActivityTrend_by_length(3) [OF l2]
  have d: "\<exists>base s1 s2. s1 \<in> set activity_suffixes \<and> s2 \<in> set activity_suffixes
             \<and> at_description (predictActivityTrend evs1) = base @ s1
             \<and> at_description (predictActivityTrend evs2) = base @ s2"
    unfolding assms(1) by blast
  from t c d show ?thesis by blast
qed

lemma twelve_lengths: "length twelve_pushes = 12" "length twelve_issues = 12"
  by (simp_all add: twelve_pushes_def twelve_issues_def)

text \<open>The suffix does depend on the event types: twelve push events and twelve issue
  events at the same times get different descriptions.\<close>

lemma predictActivityTrend_description_varies:
  "at_description (predictActivityTrend twelve_pushes)
     \<noteq> at_description (predictActivityTrend twelve_issues)"
  by code_simp

theorem predictActivityTrend_same_length_witness:
  "length twelve_pushes = length twelve_issues \<and> length twelve_pushes \<ge> 10
   \<and> at_trend (predictActivityTrend twelve_pushes) = at_trend (predictActivityTrend twelve_issues)
   \<and> at_confidence (predictActivityTrend twelve_pushes)
       = at_confidence (predictActivityTrend twelve_issues)
   \<and> (\<exists>base s1 s2. s1 \<in> set activity_suffixes \<and> s2 \<in> set activity_suffixes
         \<and> at_description (predictActivityTrend twelve_pushes) = base @ s1
         \<and> at_description (predictActivityTrend twelve_issues) = base @ s2)"
  using predictActivityTrend_same_length [of twelve_pushes twelve_issues]
  by (simp add: twelve_lengths)

lemma list_all_slice: "list_all P xs \<Longrightarrow> list_all P (slice a b xs)"
  by (auto simp: slice_def list_all_iff dest: in_set_takeD in_set_dropD)

lemma generateTechRecommendations_confidence:
  "list_all (\<lambda>rc. 0 \<le> rec_confidence rc \<and> rec_confidence rc \<le> 1) (generateTechRecommendations i)"
  unfolding generateTechRecommendations_def Let_def
  by (rule list_all_slice) (simp add: mk_rec_def)

lemma generateLearningRecommendations_confidence:
  "list_all (\<lambda>rc. 0 \<le> rec_confidence rc \<and> rec_confidence rc \<le> 1) (generateLearningRecommendations i)"
  unfolding generateLearningRecommendations_def Let_def
  by (rule list_all_slice) (simp add: mk_rec_def)

lemma generateProductivityRecommendations_confidence:
  "list_all (\<lambda>rc. 0 \<le> rec_confidence rc \<and> rec_confidence rc \<le> 1)
     (generateProductivityRecommendations i)"
  unfolding generateProductivityRecommendations_def Let_def
  by (rule list_all_slice) (simp add: mk_rec_def)

lemma generateCareerRecommendations_confidence:
  "list_all (\<lambda>rc. 0 \<le> rec_confidence rc \<and> rec_confidence rc \<le> 1) (generateCareerRecommendations i)"
  unfolding generateCareerRecommendations_def Let_def
  by (rule list_all_slice) (simp add: mk_rec_def)

lemma predictNextTechnology_confidence:
  assumes "predictNextTechnology repos = Inr p"
  shows "nt_confidence p
           = min 0.9 (0.5 + real (set_size (languages_of repos)) * 0.1 + real (length repos) * 0.01)"
  using assms by (auto simp: predictNextTechnology_def Let_def split: sum.splits)

lemma min_09: "0 \<le> x \<Longrightarrow> 0 \<le> min (0.9::real) x \<and> min 0.9 x \<le> 0.9"
  by (auto simp: min_def)

lemma predictNextTechnology_confidence_bounds:
  assumes "predictNextTechnology repos = Inr p"
  shows "0 \<le> nt_confidence p \<and> nt_confidence p \<le> 0.9"
proof -
  have "0 \<le> 0.5 + real (set_size (languages_of repos)) * 0.1 + real (length repos) * 0.01"
    by simp
  from min_09 [OF this] show ?thesis
    unfolding predictNextTechnology_confidence [OF assms] by blast
qed

lemma predictActivityTrend_confidence:
  "0 \<le> at_confidence (predictActivityTrend evs) \<and> at_confidence (predictActivityTrend evs) \<le> 1"
  by (simp add: predictActivityTrend_def Let_def split_def)

lemma predictCollaborationGrowth_confidence:
  "0 \<le> cg_confidence (predictCollaborationGrowth_1006 evs)
   \<and> cg_confidence (predictCollaborationGrowth_1006 evs) \<le> 1"
  "0 \<le> cg_confidence (predictCollaborationGrowth_1431 evs)
   \<and> cg_confidence (predictCollaborationGrowth_1431 evs) \<le> 1"
  by (simp_all add: predictCollaborationGrowth_1006_def predictCollaborationGrowth_1431_def
        Let_def split_def)

lemma predictSkillDevelopment_confidence:
  "0 \<le> sd_confidence (predictSkillDevelopment_1063 repos evs)
   \<and> sd_confidence (predictSkillDevelopment_1063 repos evs) \<le> 1"
  "0 \<le> sd_confidence (predictSkillDevelopment_1452 repos evs)
   \<and> sd_confidence (predictSkillDevelopment_1452 repos evs) \<le> 1"
  by (simp_all add: predictSkillDevelopment_1063_def predictSkillDevelopment_1452_def
        Let_def split_def)

text \<open>
  C8. Every confidence that the four recommendation generators and the prediction
  generators produce lies between 0 and 1, for every input, under either definition of
  \<^verbatim>\<open>predictCollaborationGrowth\<close> and \<^verbatim>\<open>predictSkillDevelopment\<close>. When
  \<^verbatim>\<open>predictNextTechnology\<close> returns, its confidence is
  \<open>min 0.9 (0.5 + 0.1 * uniqueLanguages + 0.01 * repos.length)\<close>, so at most 0.9.
\<close>

theorem confidences_in_unit_interval:
  "(\<forall>rc \<in> set (generateTechRecommendations insights).
       0 \<le> rec_confidence rc \<and> rec_confidence rc \<le> 1)
   \<and> (\<forall>rc \<in> set (generateLearningRecommendations insights).
       0 \<le> rec_confidence rc \<and> rec_confidence rc \<le> 1)
   \<and> (\<forall>rc \<in> set (generateProductivityRecommendations insights).
       0 \<le> rec_confidence rc \<and> rec_confidence rc \<le> 1)
   \<and> (\<forall>rc \<in> set (generateCareerRecommendations insights).
       0 \<le> rec_confidence rc \<and> rec_confidence rc \<le> 1)
   \<and> (\<forall>p. predictNextTechnology repos = Inr p \<longrightarrow>
         nt_confidence p
           = min 0.9 (0.5 + real (set_size (languages_of repos)) * 0.1 + real (length repos) * 0.01)
         \<and> 0 \<le> nt_confidence p \<and> nt_confidence p \<le> 0.9)
   \<and> 0 \<le> at_confidence (predictActivityTrend evs)
   \<and> at_confidence (predictActivityTrend evs) \<le> 1
   \<and> 0 \<le> cg_confidence (predictCollaborationGrowth_1431 evs)
   \<and> cg_confidence (predictCollaborationGrowth_1431 evs) \<le> 1
   \<and> 0 \<le> cg_confidence (predictCollaborationGrowth_1006 evs)
   \<and> cg_confidence (predictCollaborationGrowth_1006 evs) \<le> 1
   \<and> 0 \<le> sd_confidence (predictSkillDevelopment_1452 repos evs)
   \<and> sd_confidence (predictSkillDevelopment_1452 repos evs) \<le> 1
   \<and> 0 \<le> sd_confidence (predictSkillDevelopment_1063 repos evs)
   \<and> sd_confidence (predictSkillDevelopment_1063 repos evs) \<le> 1"
  using generateTechRecommendations_confidence [of insights]
    generateLearningRecommendations_confidence [of insights]
    generateProductivityRecommendations_confidence [of insights]
    generateCareerRecommendations_confidence [of insights]
    predictNextTechnology_confidence [of repos] predictNextTechnology_confidence_bounds [of repos]
    predictActivityTrend_confidence [of evs]
    predictCollaborationGrowth_confidence [of evs] predictSkillDevelopment_confidence [of repos evs]
  by (simp add: Ball_set)

lemma demo_nextTechnology:
  "predictNextTechnology demo_repositories =
     Inr \<lparr>nt_primary = ''React'', nt_alternatives = [''Vue.js'', ''Django'', ''FastAPI''],
          nt_confidence = 9 / 10,
          nt_reasoning = ''Based on your diverse technology experience''\<rparr>"
  by code_simp

lemma demo_patterns:
  "analyzeBasicPatterns demo_user =
     \<lparr>bp_languages =
        Some [''JavaScript'', ''Python'', ''TypeScript'', ''Python'', ''C++'', ''Node.js''],
      bp_repoCount = Some 42, bp_followerCount = Some 156, bp_recentActivity = Some 10\<rparr>"
  by (simp add: analyzeBasicPatterns_def demo_user_def demo_repositories_def demo_repo_def
        demo_events_def languages_of_def or_zero_def)

lemma demo_tech_titles:
  "map rec_title (generateTechRecommendations (analyzeBasicPatterns demo_user))
     = [''Learn React or Vue.js'', ''Explore FastAPI'', ''Try Go Programming'']"
  unfolding demo_patterns generateTechRecommendations_def Let_def or_nil_def or_zero_def
  apply (simp only: basic_patterns.simps option.simps)
  apply (simp add: slice_def mk_rec_def)
  done

theorem confidences_in_unit_interval_witness:
  "map rec_title (generateTechRecommendations (analyzeBasicPatterns demo_user))
     = [''Learn React or Vue.js'', ''Explore FastAPI'', ''Try Go Programming'']
   \<and> list_all (\<lambda>rc. 0 \<le> rec_confidence rc \<and> rec_confidence rc \<le> 1)
         (generateTechRecommendations (analyzeBasicPatterns demo_user))
   \<and> list_all (\<lambda>rc. 0 \<le> rec_confidence rc \<and> rec_confidence rc \<le> 1)
         (generateLearningRecommendations (analyzeBasicPatterns demo_user))
   \<and> list_all (\<lambda>rc. 0 \<le> rec_confidence rc \<and> rec_confidence rc \<le> 1)
         (generateProductivityRecommendations (analyzeBasicPatterns demo_user))
   \<and> list_all (\<lambda>rc. 0 \<le> rec_confidence rc \<and> rec_confidence rc \<le> 1)
         (generateCareerRecommendations (analyzeBasicPatterns demo_user))
   \<and> (\<exists>p. predictNextTechnology demo_repositories = Inr p
          \<and> nt_confidence p = 0.9 \<and> 0 \<le> nt_confidence p \<and> nt_confidence p \<le> 0.9)
   \<and> 0 \<le> at_confidence (predictActivityTrend demo_events)
   \<and> at_confidence (predictActivityTrend demo_events) \<le> 1"
  using confidences_in_unit_interval
          [of "analyzeBasicPatterns demo_user" demo_repositories demo_events]
  by (simp add: list_all_iff demo_nextTechnology demo_tech_titles)

lemma DevPulseAI_lookup:
  "DevPulseAI ''predictCollaborationGrowth''
     = Some (CollaborationGrowthMethod predictCollaborationGrowth_1431)"
  "DevPulseAI ''predictSkillDevelopment''
     = Some (SkillDevelopmentMethod predictSkillDevelopment_1452)"
  by (simp_all add: DevPulseAI_def DevPulseAI_properties_def object_literal_def)

lemma generatePredictions_eq:
  "generatePredictions userData =
     (case predictNextTechnology (or_nil (repositories userData)) of
        Inl e \<Rightarrow> Inl e
      | Inr nextTech \<Rightarrow>
          Inr \<lparr>nextTechnology = nextTech,
               activityTrend = predictActivityTrend (or_nil (events userData)),
               collaborationGrowth = predictCollaborationGrowth_1431 (or_nil (events userData)),
               skillDevelopment =
                 predictSkillDevelopment_1452 (or_nil (repositories userData))
                   (or_nil (events userData))\<rparr>)"
  by (simp add: generatePredictions_def DevPulseAI_lookup Let_def split: sum.splits)

lemma definitions_differ:
  "predictCollaborationGrowth_1006 \<noteq> predictCollaborationGrowth_1431"
  "predictSkillDevelopment_1063 \<noteq> predictSkillDevelopment_1452"
proof -
  have "predictCollaborationGrowth_1006 [] \<noteq> predictCollaborationGrowth_1431 []"
    by (simp add: predictCollaborationGrowth_1006_def predictCollaborationGrowth_1431_def slice_def)
  then show "predictCollaborationGrowth_1006 \<noteq> predictCollaborationGrowth_1431"
    by metis
  have "predictSkillDevelopment_1063 [] [] \<noteq> predictSkillDevelopment_1452 [] []"
    by (simp add: predictSkillDevelopment_1063_def predictSkillDevelopment_1452_def slice_def
          languages_of_def uniq_def Let_def)
  then show "predictSkillDevelopment_1063 \<noteq> predictSkillDevelopment_1452"
    by metis
qed

text \<open>
  C4. \<^verbatim>\<open>predictCollaborationGrowth\<close> and \<^verbatim>\<open>predictSkillDevelopment\<close> are each defined
  twice in the object literal, with different bodies, and the later definition replaces
  the earlier one: the object holds the definitions of lines 1431 and 1452, and for every
  input the \<^verbatim>\<open>collaborationGrowth\<close> and \<^verbatim>\<open>skillDevelopment\<close> fields that
  \<^verbatim>\<open>generatePredictions\<close> produces are the results of those two; the definitions of lines
  1006 and 1063 are never invoked.
\<close>

theorem duplicate_keys_later_definition_wins:
  "DevPulseAI ''predictCollaborationGrowth''
     = Some (CollaborationGrowthMethod predictCollaborationGrowth_1431)
   \<and> DevPulseAI ''predictSkillDevelopment''
     = Some (SkillDevelopmentMethod predictSkillDevelopment_1452)
   \<and> predictCollaborationGrowth_1006 \<noteq> predictCollaborationGrowth_1431
   \<and> predictSkillDevelopment_1063 \<noteq> predictSkillDevelopment_1452
   \<and> generatePredictions userData =
       (case predictNextTechnology (or_nil (repositories userData)) of
          Inl e \<Rightarrow> Inl e
        | Inr nextTech \<Rightarrow>
            Inr \<lparr>nextTechnology = nextTech,
                 activityTrend = predictActivityTrend (or_nil (events userData)),
                 collaborationGrowth = predictCollaborationGrowth_1431 (or_nil (events userData)),
                 skillDevelopment =
                   predictSkillDevelopment_1452 (or_nil (repositories userData))
                     (or_nil (events userData))\<rparr>)"
  using DevPulseAI_lookup definitions_differ generatePredictions_eq by blast

lemma demo_second_definitions:
  "predictCollaborationGrowth_1431 demo_events =
     \<lparr>cg_trend = IncreasingCollaboration, cg_confidence = 4 / 5, cg_suggestion = None\<rparr>"
  "predictSkillDevelopment_1452 demo_repositories demo_events =
     \<lparr>sd_learningVelocity = VelocityModerate, sd_skillDiversification = Expanding,
      sd_confidence = 7 / 10, sd_insights = None, sd_recommendations = None\<rparr>"
  by code_simp+

lemma demo_first_definitions:
  "cg_trend (predictCollaborationGrowth_1006 demo_events) = StartCollaborating"
  "sd_learningVelocity (predictSkillDevelopment_1063 demo_repositories demo_events)
     = ModerateSteadyGrowth"
  by code_simp+

theorem duplicate_keys_later_definition_wins_witness:
  "generatePredictions demo_user =
     Inr \<lparr>nextTechnology =
            \<lparr>nt_primary = ''React'', nt_alternatives = [''Vue.js'', ''Django'', ''FastAPI''],
             nt_confidence = 9 / 10,
             nt_reasoning = ''Based on your diverse technology experience''\<rparr>,
          activityTrend = predictActivityTrend demo_events,
          collaborationGrowth =
            \<lparr>cg_trend = IncreasingCollaboration, cg_confidence = 4 / 5, cg_suggestion = None\<rparr>,
          skillDevelopment =
            \<lparr>sd_learningVelocity = VelocityModerate, sd_skillDiversification = Expanding,
             sd_confidence = 7 / 10, sd_insights = None, sd_recommendations = None\<rparr>\<rparr>"
  using duplicate_keys_later_definition_wins [of demo_user]
  by (simp add: demo_user_def or_nil_def demo_nextTechnology demo_second_definitions)

subsection \<open>The empty input\<close>

lemma empty_scores:
  "calculateInnovationScore now r [] = r * 3 + 4"
  "calculateCollaborationScore r [] = r * 3 + 3"
  "calculateConsistencyScore tz r [] = r * 4 + 3"
  "calculateExplorationScore r [] = r * 3 + 4"
  "calculateLeadershipScore r [] [] = r * 3 + 2"
  by (simp_all add: calculateInnovationScore_def calculateCollaborationScore_def
        calculateConsistencyScore_def calculateExplorationScore_def calculateLeadershipScore_def)

lemma empty_personality:
  assumes "valid_draws d"
  shows "analyzePersonalityProfile now tz d empty_input =
     \<lparr>pp_type = BalancedDeveloper,
      pp_scores =
        \<lparr>innovation = d_innovation d * 3 + 4, collaboration = d_collaboration d * 3 + 3,
         consistency = d_consistency d * 4 + 3, exploration = d_exploration d * 3 + 4,
         leadership = d_leadership d * 3 + 2\<rparr>,
      pp_description = ''You maintain a well-rounded approach to development and collaboration.'',
      pp_strengths = [''Dedicated Development'', ''Problem Solving''],
      pp_growthAreas =
        (if d_innovation d * 3 + 4 < 5 then [''Experiment with new technologies''] else [])
        @ (if d_collaboration d * 3 + 3 < 5 then [''Increase community involvement''] else [])
        @ (if d_consistency d * 4 + 3 < 5 then [''Develop regular coding habits''] else [])
        @ (if d_exploration d * 3 + 4 < 5 then [''Try diverse programming languages''] else [])
        @ [''Take ownership of projects'']\<rparr>"
  using assms
  by (simp add: analyzePersonalityProfile_def empty_input_def or_nil_def empty_scores
        determinePersonalityType_def generatePersonalityDescription_def identifyStrengths_def
        identifyGrowthAreas_def valid_draws_def Let_def)

lemma reduce_add_replicate_0: "reduce_add (replicate n (0::nat)) = 0"
  by (induction n) (simp_all add: reduce_add_def)

lemma empty_work:
  "analyzeWorkPatterns tz d empty_input =
     \<lparr>peakHours = [0 ..< 24],
      workingStyle = GettingStarted,
      sessionLength = \<lparr>sl_average = ''Unknown'', sl_pattern = ''Insufficient data''\<rparr>,
      multitasking = \<lparr>uniqueProjects = 0, averageEventsPerProject = Infinity, multitaskingScore = 0\<rparr>,
      wp_consistency = 5,
      wp_burnoutRisk =
        \<lparr>b_level = Low, b_advice = ''Build consistent coding habits gradually'',
         b_score = d_burnout_workPatterns d * 3 + 1, b_recommendations = None\<rparr>\<rparr>"
  by (simp add: analyzeWorkPatterns_def empty_input_def or_nil_def no_events_buckets
        identifyPeakHours_all_zero determineWorkingStyle_def reduce_add_replicate_0 estimateSessionLength_def
        analyzeProjectJuggling_def truthy_strings_def set_size_def calculateWorkConsistency_def
        assessBurnoutRisk_def Let_def)

lemma empty_coding:
  "analyzeCodingStyle empty_input =
     \<lparr>languagePreferences = Map.empty, projectTypes = [],
      commitStyle = \<lparr>cs_style = ''Unknown'', cs_pattern = ''No push events found''\<rparr>,
      testingApproach = ''Exploratory Development'', architectureStyle = []\<rparr>"
  by (simp add: analyzeCodingStyle_def empty_input_def or_nil_def analyzeLanguagePreferences_def
        calculateDistribution_def languages_of_def categorizeProjectTypes_def pushed_tags_def
        uniq_def slice_def analyzeCommitStyle_def analyzeTestingApproach_def
        analyzeArchitectureStyle_def Let_def)

lemma empty_collab:
  "analyzeCollaborationStyle empty_input =
     \<lparr>teamPlayer = 0, mentorshipStyle = ''Focus on Own Work'',
      communicationStyle = ''Task-Focused'', cs_leadership = ''Individual Contributor'',
      networkSize = \<lparr>repositoryNetwork = 0, organizationNetwork = 0, networkScore = 0\<rparr>\<rparr>"
  by (simp add: analyzeCollaborationStyle_def empty_input_def or_nil_def assessTeamPlayerScore_def
        analyzeMentorshipStyle_def analyzeCommunicationStyle_def assessLeadershipTendencies_def
        estimateNetworkSize_def truthy_strings_def set_size_def Let_def)

lemma empty_risks:
  "analyzeRisks tz d empty_input =
     \<lparr>ra_burnoutRisk =
        \<lparr>b_level = Low, b_advice = ''Build consistent coding habits gradually'',
         b_score = d_burnout_risks d * 3 + 1, b_recommendations = None\<rparr>,
      skillStagnation =
        \<lparr>rn_level = Low, rn_advice = ''Good variety in technology exploration''\<rparr>,
      collaborationIsolation =
        \<lparr>rn_level = High, rn_advice = ''Consider engaging more with the GitHub community''\<rparr>\<rparr>"
  by (simp add: analyzeRisks_def empty_input_def or_nil_def assessBurnoutRisk_def
        assessSkillStagnation_def assessCollaborationIsolation_def languages_of_def set_size_def
        slice_def Let_def)

lemma empty_predictions:
  "generatePredictions empty_input =
     Inr \<lparr>nextTechnology =
            \<lparr>nt_primary = ''React'', nt_alternatives = [], nt_confidence = 1 / 2,
             nt_reasoning = ''Popular choice for modern development''\<rparr>,
          activityTrend =
            \<lparr>at_trend = BuildingMomentum, at_confidence = 3 / 5,
             at_description = ''Start building consistent coding habits''\<rparr>,
          collaborationGrowth =
            \<lparr>cg_trend = StableCollaboration, cg_confidence = 9 / 10, cg_suggestion = None\<rparr>,
          skillDevelopment =
            \<lparr>sd_learningVelocity = VelocityStable, sd_skillDiversification = Deepening,
             sd_confidence = 7 / 10, sd_insights = None, sd_recommendations = None\<rparr>\<rparr>"
  by (simp add: generatePredictions_eq empty_input_def or_nil_def predictNextTechnology_def
        languages_of_def slice_def set_size_def uniq_def getTechRecommendationReasoning_def
        predictActivityTrend_def predictCollaborationGrowth_1431_def
        predictSkillDevelopment_1452_def Let_def)

lemma empty_patterns:
  "analyzeBasicPatterns empty_input =
     \<lparr>bp_languages = Some [], bp_repoCount = Some 0, bp_followerCount = Some 0,
      bp_recentActivity = Some 0\<rparr>"
  by (simp add: analyzeBasicPatterns_def empty_input_def languages_of_def or_zero_def)

lemma empty_recommendations:
  "generateRecommendations empty_input =
     [mk_rec ''Technology'' ''Start with JavaScript''
        ''JavaScript is versatile and perfect for both frontend and backend development.''
        0.9 [0x1F49B],
      mk_rec ''Learning'' ''Git & GitHub Mastery''
        ''Master version control and collaboration workflows to boost your development skills.''
        0.95 [0x1F4DA],
      mk_rec ''Learning'' ''Algorithm & Data Structures''
        ''Build strong programming fundamentals with algorithms and data structures.''
        0.9 [0x1F9EE],
      mk_rec ''Productivity'' ''Consistent Coding Schedule''
        ''Establish a regular coding routine to maintain momentum and skills.''
        0.85 [0x1F4C5],
      mk_rec ''Productivity'' ''Code Review Practices''
        ''Regular code reviews improve quality and knowledge sharing.''
        0.75 [0x1F465],
      mk_rec ''Career'' ''Open Source Contribution''
        ''Contributing to major projects can significantly boost your professional profile.''
        0.9 [0x1F31F]]"
  unfolding generateRecommendations_def empty_patterns Let_def generateTechRecommendations_def
    generateLearningRecommendations_def generateProductivityRecommendations_def
    generateCareerRecommendations_def or_nil_def or_zero_def
  apply (simp only: basic_patterns.simps option.simps)
  apply (simp add: slice_def)
  done






text \<open>The record of the empty input in the exact arithmetic of the model.\<close>

lemma generateInsights_empty:
  assumes "valid_draws d"
  shows "generateInsights now tz d empty_input =
     Inr \<lparr>personalityProfile =
            \<lparr>pp_type = BalancedDeveloper,
             pp_scores =
               \<lparr>innovation = d_innovation d * 3 + 4, collaboration = d_collaboration d * 3 + 3,
                consistency = d_consistency d * 4 + 3, exploration = d_exploration d * 3 + 4,
                leadership = d_leadership d * 3 + 2\<rparr>,
             pp_description =
               ''You maintain a well-rounded approach to development and collaboration.'',
             pp_strengths = [''Dedicated Development'', ''Problem Solving''],
             pp_growthAreas =
               (if d_innovation d * 3 + 4 < 5 then [''Experiment with new technologies''] else [])
               @ (if d_collaboration d * 3 + 3 < 5 then [''Increase community involvement''] else [])
               @ (if d_consistency d * 4 + 3 < 5 then [''Develop regular coding habits''] else [])
               @ (if d_exploration d * 3 + 4 < 5 then [''Try diverse programming languages'']
                  else [])
               @ [''Take ownership of projects'']\<rparr>,
          workPatterns =
            \<lparr>peakHours = [0 ..< 24],
             workingStyle = GettingStarted,
             sessionLength = \<lparr>sl_average = ''Unknown'', sl_pattern = ''Insufficient data''\<rparr>,
             multitasking =
               \<lparr>uniqueProjects = 0, averageEventsPerProject = Infinity, multitaskingScore = 0\<rparr>,
             wp_consistency = 5,
             wp_burnoutRisk =
               \<lparr>b_level = Low, b_advice = ''Build consistent coding habits gradually'',
                b_score = d_burnout_workPatterns d * 3 + 1, b_recommendations = None\<rparr>\<rparr>,
          codingStyle =
            \<lparr>languagePreferences = Map.empty, projectTypes = [],
             commitStyle = \<lparr>cs_style = ''Unknown'', cs_pattern = ''No push events found''\<rparr>,
             testingApproach = ''Exploratory Development'', architectureStyle = []\<rparr>,
          collaborationStyle =
            \<lparr>teamPlayer = 0, mentorshipStyle = ''Focus on Own Work'',
             communicationStyle = ''Task-Focused'', cs_leadership = ''Individual Contributor'',
             networkSize =
               \<lparr>repositoryNetwork = 0, organizationNetwork = 0, networkScore = 0\<rparr>\<rparr>,
          recommendations =
            [mk_rec ''Technology'' ''Start with JavaScript''
               ''JavaScript is versatile and perfect for both frontend and backend development.''
               0.9 [0x1F49B],
             mk_rec ''Learning'' ''Git & GitHub Mastery''
               ''Master version control and collaboration workflows to boost your development skills.''
               0.95 [0x1F4DA],
             mk_rec ''Learning'' ''Algorithm & Data Structures''
               ''Build strong programming fundamentals with algorithms and data structures.''
               0.9 [0x1F9EE],
             mk_rec ''Productivity'' ''Consistent Coding Schedule''
               ''Establish a regular coding routine to maintain momentum and skills.''
               0.85 [0x1F4C5],
             mk_rec ''Productivity'' ''Code Review Practices''
               ''Regular code reviews improve quality and knowledge sharing.''
               0.75 [0x1F465],
             mk_rec ''Career'' ''Open Source Contribution''
               ''Contributing to major projects can significantly boost your professional profile.''
               0.9 [0x1F31F]],
          predictions =
            \<lparr>nextTechnology =
               \<lparr>nt_primary = ''React'', nt_alternatives = [], nt_confidence = 1 / 2,
                nt_reasoning = ''Popular choice for modern development''\<rparr>,
             activityTrend =
               \<lparr>at_trend = BuildingMomentum, at_confidence = 3 / 5,
                at_description = ''Start building consistent coding habits''\<rparr>,
             collaborationGrowth =
               \<lparr>cg_trend = StableCollaboration, cg_confidence = 9 / 10, cg_suggestion = None\<rparr>,
             skillDevelopment =
               \<lparr>sd_learningVelocity = VelocityStable, sd_skillDiversification = Deepening,
                sd_confidence = 7 / 10, sd_insights = None, sd_recommendations = None\<rparr>\<rparr>,
          riskAnalysis =
            \<lparr>ra_burnoutRisk =
               \<lparr>b_level = Low, b_advice = ''Build consistent coding habits gradually'',
                b_score = d_burnout_risks d * 3 + 1, b_recommendations = None\<rparr>,
             skillStagnation =
               \<lparr>rn_level = Low, rn_advice = ''Good variety in technology exploration''\<rparr>,
             collaborationIsolation =
               \<lparr>rn_level = High,
                rn_advice = ''Consider engaging more with the GitHub community''\<rparr>\<rparr>\<rparr>"
  unfolding generateInsights_def empty_predictions empty_personality [OF assms] empty_work
    empty_coding empty_collab empty_recommendations empty_risks
  by (simp only: sum.case)


subsection \<open>When a run raises\<close>










subsection \<open>Determinism\<close>

lemma calculators_ignore_draw:
  "length repos \<noteq> 0 \<Longrightarrow>
     calculateInnovationScore now r1 repos = calculateInnovationScore now r2 repos"
  "length evs \<noteq> 0 \<Longrightarrow> calculateCollaborationScore r1 evs = calculateCollaborationScore r2 evs"
  "\<not> length evs < 5 \<Longrightarrow> \<not> length (groupEventsByDay tz evs) < 7 \<Longrightarrow>
     calculateConsistencyScore tz r1 evs = calculateConsistencyScore tz r2 evs"
  "length repos \<noteq> 0 \<Longrightarrow> calculateExplorationScore r1 repos = calculateExplorationScore r2 repos"
  "\<not> (length repos = 0 \<and> length evs = 0) \<Longrightarrow>
     calculateLeadershipScore r1 repos evs = calculateLeadershipScore r2 repos evs"
  "\<not> length evs < 20 \<Longrightarrow>
     assessBurnoutRisk tz r1 evs weeklyPattern = assessBurnoutRisk tz r2 evs weeklyPattern"
  unfolding calculateInnovationScore_def calculateCollaborationScore_def
    calculateConsistencyScore_def calculateExplorationScore_def calculateLeadershipScore_def
    assessBurnoutRisk_def Let_def
  by (simp_all only: if_False if_not_P length_map)

lemma no_placeholder_sections:
  assumes "\<not> takes_placeholder_branch tz userData"
  shows "analyzePersonalityProfile now tz d1 userData = analyzePersonalityProfile now tz d2 userData"
    and "analyzeWorkPatterns tz d1 userData = analyzeWorkPatterns tz d2 userData"
    and "analyzeRisks tz d1 userData = analyzeRisks tz d2 userData"
proof -
  from assms have c:
    "length (or_nil (repositories userData)) \<noteq> 0" "length (or_nil (events userData)) \<noteq> 0"
    "\<not> length (or_nil (events userData)) < 5"
    "\<not> length (groupEventsByDay tz (or_nil (events userData))) < 7"
    "\<not> (length (or_nil (repositories userData)) = 0 \<and> length (or_nil (events userData)) = 0)"
    "\<not> length (or_nil (events userData)) < 20"
    by (simp_all add: takes_placeholder_branch_def Let_def)
  show "analyzePersonalityProfile now tz d1 userData = analyzePersonalityProfile now tz d2 userData"
    unfolding analyzePersonalityProfile_def Let_def
    using calculators_ignore_draw(1)
            [OF c(1), where ?r1.0 = "d_innovation d1" and ?r2.0 = "d_innovation d2" and now = now]
      calculators_ignore_draw(2)
            [OF c(2), where ?r1.0 = "d_collaboration d1" and ?r2.0 = "d_collaboration d2"]
      calculators_ignore_draw(3)
            [OF c(3) c(4), where ?r1.0 = "d_consistency d1" and ?r2.0 = "d_consistency d2"]
      calculators_ignore_draw(4)
            [OF c(1), where ?r1.0 = "d_exploration d1" and ?r2.0 = "d_exploration d2"]
      calculators_ignore_draw(5)
            [OF c(5), where ?r1.0 = "d_leadership d1" and ?r2.0 = "d_leadership d2"]
    by (simp only:)
  show "analyzeWorkPatterns tz d1 userData = analyzeWorkPatterns tz d2 userData"
    unfolding analyzeWorkPatterns_def Let_def
    using calculators_ignore_draw(6)
            [OF c(6), where ?r1.0 = "d_burnout_workPatterns d1"
               and ?r2.0 = "d_burnout_workPatterns d2" and tz = tz
               and weeklyPattern = "analyzeWeeklyPattern tz (or_nil (events userData))"]
    by (simp only:)
  show "analyzeRisks tz d1 userData = analyzeRisks tz d2 userData"
    unfolding analyzeRisks_def Let_def
    using calculators_ignore_draw(6)
            [OF c(6), where ?r1.0 = "d_burnout_risks d1" and ?r2.0 = "d_burnout_risks d2"
               and tz = tz
               and weeklyPattern = "analyzeWeeklyPattern tz (or_nil (events userData))"]
    by (simp only:)
qed

text \<open>
  C5. Two runs of \<^verbatim>\<open>generateInsights\<close> on the same input, at the same time and in the
  same zone, differ at most in what \<^verbatim>\<open>Math.random()\<close> returns. When no placeholder branch
  is taken (there are repositories, at least 20 events, and events on at least 7 days) the
  two runs return the same record, so the same classification strings and the same
  recommendation titles: a difference between two runs implies that a placeholder branch
  was taken.
\<close>

theorem generateInsights_deterministic:
  assumes "\<not> takes_placeholder_branch tz userData"
  shows "generateInsights now tz d1 userData = generateInsights now tz d2 userData"
  unfolding generateInsights_def
  by (simp only:
        no_placeholder_sections(1) [OF assms, where ?d1.0 = d1 and ?d2.0 = d2 and now = now]
        no_placeholder_sections(2) [OF assms, where ?d1.0 = d1 and ?d2.0 = d2]
        no_placeholder_sections(3) [OF assms, where ?d1.0 = d1 and ?d2.0 = d2])

lemma busy_days: "length (groupEventsByDay 0 busy_events) = 10"
  by code_simp

lemma busy_length: "length busy_events = 30"
  by (simp add: busy_events_def)

lemma busy_nonempty: "busy_events \<noteq> []"
  using busy_length by auto

lemma busy_no_placeholder: "\<not> takes_placeholder_branch 0 busy_user"
  by (simp add: takes_placeholder_branch_def busy_user_def demo_user_def or_nil_def busy_days
        busy_length busy_nonempty demo_repositories_def)

theorem generateInsights_deterministic_witness:
  "\<not> takes_placeholder_branch 0 busy_user
   \<and> generateInsights sample_now 0 (all_draws 0) busy_user
       = generateInsights sample_now 0 (all_draws (1 / 2)) busy_user"
  using generateInsights_deterministic [of 0 busy_user sample_now "all_draws 0" "all_draws (1 / 2)"]
    busy_no_placeholder
  by simp

text \<open>On the empty input the placeholder branches are taken and two runs can differ.\<close>

lemma generateInsights_placeholders_vary:
  "takes_placeholder_branch 0 empty_input
   \<and> generateInsights sample_now 0 (all_draws 0) empty_input
       \<noteq> generateInsights sample_now 0 (all_draws (1 / 2)) empty_input"
proof -
  have "takes_placeholder_branch 0 empty_input"
    by (simp add: takes_placeholder_branch_def empty_input_def or_nil_def)
  moreover have "generateInsights sample_now 0 (all_draws 0) empty_input
       \<noteq> generateInsights sample_now 0 (all_draws (1 / 2)) empty_input"
    by (simp add: generateInsights_empty valid_draws_def all_draws_def)
  ultimately show ?thesis by simp
qed

end
